theory Spec2Isabelle
  imports Complex_Main
begin

section \<open>JavaScript values\<close>

text \<open>
  The client (\<^verbatim>\<open>frontend/src/App.jsx\<close>) receives parsed JSON from the server and tests,
  compares and prints it with JavaScript's own rules. A value is one of the JSON shapes
  or \<^verbatim>\<open>undefined\<close>. A number is a rational (every finite number that JavaScript holds
  is one; \<^verbatim>\<open>-0\<close> is \<open>0\<close>, which it prints and tests like) or one of the two infinities,
  which \<^verbatim>\<open>JSON.parse\<close> gives for a literal too large for a double (\<open>JInf True\<close> is
  \<^verbatim>\<open>Infinity\<close>, \<open>JInf False\<close> is \<^verbatim>\<open>-Infinity\<close>); JSON has no \<^verbatim>\<open>NaN\<close>. An object is the
  list of its own properties, read by name; none of them can be called, since JSON has
  no functions.
  A string is the list of its UTF-8 bytes, so the symbols of the log texts that are not
  ASCII are written as their three bytes.
\<close>

datatype jsval =
    JUndefined
  | JNull
  | JBool bool
  | JNum rat
  | JInf bool
  | JStr string
  | JArr "jsval list"
  | JObj "(string \<times> jsval) list"

text \<open>ToBoolean: what \<^verbatim>\<open>if (v)\<close>, \<^verbatim>\<open>!v\<close> and \<^verbatim>\<open>v || d\<close> test.\<close>

fun truthy :: "jsval \<Rightarrow> bool" where
  "truthy JUndefined = False"
| "truthy JNull = False"
| "truthy (JBool b) = b"
| "truthy (JNum n) = (n \<noteq> 0)"
| "truthy (JInf b) = True"
| "truthy (JStr s) = (s \<noteq> [])"
| "truthy (JArr xs) = True"
| "truthy (JObj kvs) = True"

text \<open>\<^verbatim>\<open>a || b\<close>: the left operand when it is truthy, the right one otherwise.\<close>

definition js_or :: "jsval \<Rightarrow> jsval \<Rightarrow> jsval" where
  "js_or a b = (if truthy a then a else b)"

text \<open>
  What the code can throw: axios rejects a request (network failure or a status outside
  2xx) with an error that carries a message; reading a property of \<^verbatim>\<open>null\<close> or
  \<^verbatim>\<open>undefined\<close> and printing an object that cannot be made a primitive are TypeErrors
  (the messages are the engine's, here V8's wording).
\<close>

datatype exn = AxiosError string | TypeError string

fun message :: "exn \<Rightarrow> string" where
  "message (AxiosError m) = m"
| "message (TypeError m) = m"

text \<open>
  Two conversions of the JavaScript engine are taken as they are, as parameters of the
  model: \<open>num_text\<close> is \<^verbatim>\<open>Number.prototype.toString\<close> (used for the numbers that are not
  safe integers, whose text is the shortest decimal that reads back as the same double,
  in exponent form from \<^verbatim>\<open>1e21\<close>), and \<open>text_positive t\<close> says whether the number that
  the text \<open>t\<close> converts to is greater than zero.
\<close>

record engine =
  num_text :: "rat \<Rightarrow> string"
  text_positive :: "string \<Rightarrow> bool"

fun digits :: "nat \<Rightarrow> string" where
  "digits n =
     (if n < 10 then [''0123456789'' ! n]
      else digits (n div 10) @ [''0123456789'' ! (n mod 10)])"

text \<open>
  A safe integer (below \<open>2\<^sup>5\<^sup>3\<close> in magnitude) prints as its decimal digits; any other
  number prints as the engine prints it.
\<close>

definition NumberToString :: "engine \<Rightarrow> rat \<Rightarrow> string" where
  "NumberToString E x =
     (if of_int \<lfloor>x\<rfloor> = x \<and> \<bar>x\<bar> < 9007199254740992
      then (if x < 0 then CHR ''-'' # digits (nat \<lfloor>- x\<rfloor>) else digits (nat \<lfloor>x\<rfloor>))
      else num_text E x)"

fun join :: "string \<Rightarrow> string list \<Rightarrow> string" where
  "join sep [] = []"
| "join sep [x] = x"
| "join sep (x # y # ys) = x @ sep @ join sep (y # ys)"

text \<open>The results of a row of steps, up to the first that throws.\<close>

fun collect :: "(exn + 'a) list \<Rightarrow> exn + 'a list" where
  "collect [] = Inr []"
| "collect (Inl e # rs) = Inl e"
| "collect (Inr x # rs) = (case collect rs of Inl e \<Rightarrow> Inl e | Inr xs \<Rightarrow> Inr (x # xs))"

text \<open>
  ToString: what a template literal \<^verbatim>\<open>`${v}`\<close> prints, or throws. An array prints its
  elements joined by commas (\<^verbatim>\<open>null\<close> as nothing). An object inherits \<^verbatim>\<open>toString\<close> and
  prints as \<^verbatim>\<open>[object Object]\<close>, unless it has an own property \<^verbatim>\<open>toString\<close>: that
  property hides the inherited method and cannot be called, \<^verbatim>\<open>valueOf\<close> gives no
  primitive, and the conversion throws.
\<close>

fun ToString :: "engine \<Rightarrow> jsval \<Rightarrow> exn + string" where
  "ToString E JUndefined = Inr ''undefined''"
| "ToString E JNull = Inr ''null''"
| "ToString E (JBool b) = Inr (if b then ''true'' else ''false'')"
| "ToString E (JNum n) = Inr (NumberToString E n)"
| "ToString E (JInf b) = Inr (if b then ''Infinity'' else ''-Infinity'')"
| "ToString E (JStr s) = Inr s"
| "ToString E (JArr xs) =
     (case collect (map (\<lambda>v. if v = JUndefined \<or> v = JNull then Inr [] else ToString E v) xs) of
        Inl e \<Rightarrow> Inl e
      | Inr ts \<Rightarrow> Inr (join '','' ts))"
| "ToString E (JObj kvs) =
     (if ''toString'' \<in> set (map fst kvs)
      then Inl (TypeError ''Cannot convert object to primitive value'')
      else Inr ''[object Object]'')"

text \<open>
  \<^verbatim>\<open>v.k\<close> for the property names the client reads (\<^verbatim>\<open>project_id\<close>, \<^verbatim>\<open>status\<close>,
  \<^verbatim>\<open>progress_percentage\<close>, \<^verbatim>\<open>ai_analysis\<close>, \<^verbatim>\<open>output_video\<close>, \<^verbatim>\<open>mode\<close>,
  \<^verbatim>\<open>detected_emotion\<close>, \<^verbatim>\<open>operations_count\<close>): none of them is a property of a
  primitive's or an array's prototype, so only an object can have one.
\<close>

fun getprop :: "jsval \<Rightarrow> string \<Rightarrow> exn + jsval" where
  "getprop JUndefined k =
     Inl (TypeError (''Cannot read properties of undefined (reading '' @ [CHR 0x27] @ k @ [CHR 0x27] @ '')''))"
| "getprop JNull k =
     Inl (TypeError (''Cannot read properties of null (reading '' @ [CHR 0x27] @ k @ [CHR 0x27] @ '')''))"
| "getprop (JObj kvs) k = Inr (case map_of kvs k of None \<Rightarrow> JUndefined | Some v \<Rightarrow> v)"
| "getprop v k = Inr JUndefined"

text \<open>A read that follows a successful read of the same value, and so cannot throw.\<close>

definition field :: "jsval \<Rightarrow> string \<Rightarrow> jsval" where
  "field v k = (case getprop v k of Inl e \<Rightarrow> JUndefined | Inr x \<Rightarrow> x)"

subsection \<open>\<^verbatim>\<open>String.prototype.trim\<close>\<close>

text \<open>
  The white space and line terminators of ECMAScript, as UTF-8: the one-byte ones
  (TAB, LF, VT, FF, CR, SP), U+00A0, and the three-byte ones (U+1680, U+2000 to U+200A,
  U+2028, U+2029, U+202F, U+205F, U+3000, U+FEFF).
\<close>

definition ws1 :: "char \<Rightarrow> bool" where
  "ws1 c = (c \<in> set [CHR 0x09, CHR 0x0A, CHR 0x0B, CHR 0x0C, CHR 0x0D, CHR 0x20])"

definition ws2 :: "char \<Rightarrow> string \<Rightarrow> bool" where
  "ws2 c cs = (c = CHR 0xC2 \<and> take 1 cs = [CHR 0xA0])"

definition ws3 :: "char \<Rightarrow> string \<Rightarrow> bool" where
  "ws3 c cs =
     (c # take 2 cs \<in> set
       [[CHR 0xE1, CHR 0x9A, CHR 0x80],
        [CHR 0xE2, CHR 0x80, CHR 0x80], [CHR 0xE2, CHR 0x80, CHR 0x81],
        [CHR 0xE2, CHR 0x80, CHR 0x82], [CHR 0xE2, CHR 0x80, CHR 0x83],
        [CHR 0xE2, CHR 0x80, CHR 0x84], [CHR 0xE2, CHR 0x80, CHR 0x85],
        [CHR 0xE2, CHR 0x80, CHR 0x86], [CHR 0xE2, CHR 0x80, CHR 0x87],
        [CHR 0xE2, CHR 0x80, CHR 0x88], [CHR 0xE2, CHR 0x80, CHR 0x89],
        [CHR 0xE2, CHR 0x80, CHR 0x8A],
        [CHR 0xE2, CHR 0x80, CHR 0xA8], [CHR 0xE2, CHR 0x80, CHR 0xA9],
        [CHR 0xE2, CHR 0x80, CHR 0xAF], [CHR 0xE2, CHR 0x81, CHR 0x9F],
        [CHR 0xE3, CHR 0x80, CHR 0x80], [CHR 0xEF, CHR 0xBB, CHR 0xBF]])"

fun trimStart :: "string \<Rightarrow> string" where
  "trimStart [] = []"
| "trimStart (c # cs) =
     (if ws1 c then trimStart cs
      else if ws2 c cs then trimStart (drop 1 cs)
      else if ws3 c cs then trimStart (drop 2 cs)
      else c # cs)"

fun trimEnd :: "string \<Rightarrow> string" where
  "trimEnd [] = []"
| "trimEnd (c # cs) = (if trimStart (c # cs) = [] then [] else c # trimEnd cs)"

definition trim :: "string \<Rightarrow> string" where
  "trim s = trimEnd (trimStart s)"

section \<open>The component state and what it does to the outside\<close>

text \<open>
  The state hooks of \<^verbatim>\<open>App\<close> are the first nine fields (the two of the login dialog
  take no part in editing and are left out); each holds what its setter was last called
  with (the logs: what the updater functions passed to the setter build, one line after
  the other). The other fields record what the component does to its environment, in order:
  the \<^verbatim>\<open>alert\<close> boxes, the HTTP requests sent through axios, the windows opened, the
  \<^verbatim>\<open>console.error\<close> calls, the errors no handler caught, the timers made by
  \<^verbatim>\<open>setInterval\<close> (a timer's identifier is its position), the status requests that have
  been sent and not yet answered (each with the timer whose callback sent it), the calls
  of \<^verbatim>\<open>startEditing\<close> that got past validation with how far each has come (a call's
  identifier is its position), and whether React still has the component mounted.
\<close>

record jsfile =
  file_name :: string
  file_bytes :: string

datatype formval = FormFile jsfile | FormText string

datatype request =
    POST string "(string \<times> formval) list option"
  | GET string

record interval =
  ivl_proj :: jsval
  ivl_delay :: nat
  ivl_active :: bool

text \<open>
  A call of \<^verbatim>\<open>startEditing\<close> waits for the answer to its upload, then (keeping the
  project identifier it read) for the answer to its start-processing request, and then
  is over; it is also over once it has thrown.
\<close>

datatype stage = Uploading | Starting jsval | Finished

record app =
  videoFile :: "jsfile option"
  videoPreview :: "string option"
  prompt :: string
  projectId :: jsval
  status :: jsval
  progress :: jsval
  aiUnderstanding :: "string list"
  terminalLogs :: "string list"
  outputs :: "(string \<times> jsval) list"
  alerts :: "string list"
  requests :: "request list"
  opened :: "string list"
  console :: "(string \<times> exn) list"
  uncaught :: "exn list"
  intervals :: "interval list"
  inflight :: "nat list"
  starts :: "stage list"
  mounted :: bool

definition API_BASE :: string where
  "API_BASE = ''http://localhost:8000''"

definition App :: app where
  "App = \<lparr>
     videoFile = None,
     videoPreview = None,
     prompt = [],
     projectId = JNull,
     status = JStr [],
     progress = JNum 0,
     aiUnderstanding = [''Waiting for prompt & video...''],
     terminalLogs = [''[AI] System ready.''],
     outputs = [(''youtube'', JNull), (''instagram'', JNull), (''tiktok'', JNull), (''master'', JNull)],
     alerts = [],
     requests = [],
     opened = [],
     console = [],
     uncaught = [],
     intervals = [],
     inflight = [],
     starts = [],
     mounted = True \<rparr>"

definition alert :: "string \<Rightarrow> app \<Rightarrow> app" where
  "alert msg s = s\<lparr>alerts := alerts s @ [msg]\<rparr>"

definition send :: "request \<Rightarrow> app \<Rightarrow> app" where
  "send r s = s\<lparr>requests := requests s @ [r]\<rparr>"

definition console_error :: "string \<Rightarrow> exn \<Rightarrow> app \<Rightarrow> app" where
  "console_error label e s = s\<lparr>console := console s @ [(label, e)]\<rparr>"

definition clearInterval :: "nat \<Rightarrow> app \<Rightarrow> app" where
  "clearInterval i s =
     (if i < length (intervals s)
      then s\<lparr>intervals := (intervals s)[i := (intervals s ! i)\<lparr>ivl_active := False\<rparr>]\<rparr>
      else s)"

definition addLog :: "string \<Rightarrow> app \<Rightarrow> app" where
  "addLog msg s = s\<lparr>terminalLogs := terminalLogs s @ [''[AI] '' @ msg]\<rparr>"

text \<open>
  \<^verbatim>\<open>handleVideoUpload\<close>: \<open>file\<close> is \<^verbatim>\<open>e.target.files[0]\<close> (absent when the dialog is
  cancelled) and \<open>url\<close> is what the browser's \<^verbatim>\<open>URL.createObjectURL\<close> returns for it.
\<close>

definition handleVideoUpload :: "jsfile option \<Rightarrow> string \<Rightarrow> app \<Rightarrow> app" where
  "handleVideoUpload file url s =
     (case file of
        None \<Rightarrow> s
      | Some f \<Rightarrow>
          addLog (''Video uploaded: '' @ file_name f)
            (s\<lparr>videoFile := Some f, videoPreview := Some url\<rparr>))"

section \<open>Polling the status\<close>

text \<open>
  \<^verbatim>\<open>pollStatus\<close> only makes the timer: \<^verbatim>\<open>setInterval(callback, 2000)\<close>. The callback
  keeps \<open>projId\<close> and the timer's own identifier.
\<close>

definition pollStatus :: "jsval \<Rightarrow> app \<Rightarrow> app" where
  "pollStatus projId s =
     s\<lparr>intervals := intervals s @ [\<lparr>ivl_proj = projId, ivl_delay = 2000, ivl_active = True\<rparr>]\<rparr>"

text \<open>The address of the status read, for a project identifier as it prints.\<close>

definition status_url :: "string \<Rightarrow> string" where
  "status_url t = API_BASE @ ''/api/status/'' @ t @ ''/detailed''"

text \<open>
  The callback up to its \<^verbatim>\<open>await\<close>: the browser runs it each time timer \<open>i\<close> fires,
  which a cleared timer never does. It prints the address (inside the \<^verbatim>\<open>try\<close>), sends
  the request and returns; the previous request may still be unanswered.
\<close>

definition pollStatus_tick :: "engine \<Rightarrow> nat \<Rightarrow> app \<Rightarrow> app" where
  "pollStatus_tick E i s =
     (if i < length (intervals s) \<and> ivl_active (intervals s ! i)
      then (case ToString E (ivl_proj (intervals s ! i)) of
              Inl e \<Rightarrow> console_error ''Status poll error:'' e s
            | Inr t \<Rightarrow> (send (GET (status_url t)) s)\<lparr>inflight := inflight s @ [i]\<rparr>)
      else s)"

text \<open>
  The six lines of the summary. The three template literals are evaluated in order, and
  the first that throws ends the evaluation.
\<close>

definition analysis_lines :: "engine \<Rightarrow> jsval \<Rightarrow> exn + string list" where
  "analysis_lines E analysis =
     (case ToString E (js_or (field analysis ''mode'') (JStr ''custom'')) of
        Inl e \<Rightarrow> Inl e
      | Inr m \<Rightarrow>
         (case ToString E (js_or (field analysis ''detected_emotion'') (JStr ''balanced'')) of
            Inl e \<Rightarrow> Inl e
          | Inr d \<Rightarrow>
             (case ToString E (js_or (field analysis ''operations_count'') (JNum 0)) of
                Inl e \<Rightarrow> Inl e
              | Inr n \<Rightarrow>
                 Inr [[CHR 0xE2, CHR 0x80, CHR 0xA2] @ '' Mode: '' @ m,
                      [CHR 0xE2, CHR 0x80, CHR 0xA2] @ '' Detected emotion: '' @ d,
                      [CHR 0xE2, CHR 0x80, CHR 0xA2] @ '' Operations: '' @ n,
                      [CHR 0xE2, CHR 0x80, CHR 0xA2] @ '' Platforms: YouTube, Instagram, TikTok'',
                      [CHR 0xE2, CHR 0x80, CHR 0xA2] @ '' Audio enhancement: Active'',
                      [CHR 0xE2, CHR 0x80, CHR 0xA2] @ '' Subtitle generation: Active''])))"

definition status_logs :: "jsval \<Rightarrow> string list" where
  "status_logs st =
     (if st = JStr ''analyzing'' then [''Analyzing emotions and audio features...'']
      else if st = JStr ''processing'' then
        [''Applying AI-powered edits...'',
         ''Removing background noise...'',
         ''Enhancing audio quality...'',
         ''Analyzing emotions for smart trimming...'',
         ''Removing boring/dull parts...'',
         ''Generating synchronized subtitles...'',
         ''Adding background music...'',
         ''Optimizing for YouTube (16:9)...'',
         ''Optimizing for Instagram (9:16)...'',
         ''Optimizing for TikTok (9:16)...'']
      else [])"

text \<open>
  Lines 106 to 116 of the callback: with an \<^verbatim>\<open>ai_analysis\<close> in the body the summary is
  set to its six lines, unless printing one of them throws.
\<close>

definition set_summary :: "engine \<Rightarrow> jsval \<Rightarrow> app \<Rightarrow> exn + app" where
  "set_summary E data s =
     (if truthy (field data ''ai_analysis'')
      then (case analysis_lines E (field data ''ai_analysis'') of
              Inl e \<Rightarrow> Inl e
            | Inr ls \<Rightarrow> Inr (s\<lparr>aiUnderstanding := ls\<rparr>))
      else Inr s)"

text \<open>
  Lines 118 to 152 of the callback, for the status \<open>st\<close> read from the body: the log
  lines of the status, then what is done on \<^verbatim>\<open>completed\<close> and on \<^verbatim>\<open>failed\<close>.
\<close>

definition report_status :: "nat \<Rightarrow> jsval \<Rightarrow> jsval \<Rightarrow> app \<Rightarrow> app" where
  "report_status i st data s =
     (let s3 = fold addLog (status_logs st) s;
          s4 = (if st = JStr ''completed''
                then (addLog ''All platform versions ready for download''
                       (addLog (''Processing complete! '' @ [CHR 0xE2, CHR 0x9C, CHR 0x93])
                         (clearInterval i s3)))
                     \<lparr>outputs :=
                        [(''youtube'', field data ''output_video''),
                         (''instagram'', field data ''output_video''),
                         (''tiktok'', field data ''output_video''),
                         (''master'', field data ''output_video'')]\<rparr>
                else s3)
      in if st = JStr ''failed''
         then alert ''Processing failed. Please try again.''
                (addLog (''Processing failed '' @ [CHR 0xE2, CHR 0x9C, CHR 0x97])
                  (clearInterval i s4))
         else s4)"

text \<open>
  The callback after its \<^verbatim>\<open>await\<close>, run when the request is answered: \<open>reply\<close> is
  what axios threw or the body \<^verbatim>\<open>res.data\<close>. Two places in the \<^verbatim>\<open>try\<close> can throw:
  reading \<^verbatim>\<open>data.status\<close>, before any setter is called, and printing the summary,
  after \<^verbatim>\<open>setStatus\<close> and \<^verbatim>\<open>setProgress\<close>; what follows the throw is skipped, and the
  \<^verbatim>\<open>catch\<close> only writes to the console.
\<close>

definition pollStatus_resume :: "engine \<Rightarrow> nat \<Rightarrow> exn + jsval \<Rightarrow> app \<Rightarrow> app" where
  "pollStatus_resume E i reply s =
     (case reply of
        Inl e \<Rightarrow> console_error ''Status poll error:'' e s
      | Inr data \<Rightarrow>
         (case getprop data ''status'' of
            Inl e \<Rightarrow> console_error ''Status poll error:'' e s
          | Inr st \<Rightarrow>
             (case set_summary E data
                     (s\<lparr>status := st,
                        progress := js_or (field data ''progress_percentage'') (JNum 0)\<rparr>) of
                Inl e \<Rightarrow>
                  console_error ''Status poll error:'' e
                    (s\<lparr>status := st,
                       progress := js_or (field data ''progress_percentage'') (JNum 0)\<rparr>)
              | Inr s2 \<Rightarrow> report_status i st data s2)))"

section \<open>Starting an edit\<close>

text \<open>The \<^verbatim>\<open>catch\<close> of \<^verbatim>\<open>startEditing\<close>.\<close>

definition start_failed :: "exn \<Rightarrow> app \<Rightarrow> app" where
  "start_failed e s =
     alert ''Processing failed. Please try again.''
       (addLog (''Error: '' @ message e) (console_error ''Error:'' e s))"

definition upload_form :: "jsfile \<Rightarrow> string \<Rightarrow> (string \<times> formval) list" where
  "upload_form f p =
     [(''video'', FormFile f), (''prompt'', FormText p),
      (''platforms'', FormText ''youtube,instagram,tiktok'')]"

text \<open>The address of start-processing, for a project identifier as it prints.\<close>

definition process_url :: "string \<Rightarrow> string" where
  "process_url t = API_BASE @ ''/api/process/complete/'' @ t"

text \<open>
  \<^verbatim>\<open>startEditing\<close> up to its first \<^verbatim>\<open>await\<close>: the two checks, then the summary, the log
  line and the upload request. The call that got this far is entered in \<open>starts\<close>.
\<close>

definition startEditing :: "app \<Rightarrow> app" where
  "startEditing s =
     (case videoFile s of
        None \<Rightarrow> alert ''Please upload a video first'' s
      | Some f \<Rightarrow>
         if trim (prompt s) = [] then alert ''Please enter a prompt describing what you want'' s
         else
           (send (POST (API_BASE @ ''/api/upload/multiplatform'') (Some (upload_form f (prompt s))))
              (addLog ''Uploading video...''
                (s\<lparr>aiUnderstanding :=
                     [[CHR 0xE2, CHR 0x80, CHR 0xA2] @ '' Analyzing your prompt...'',
                      [CHR 0xE2, CHR 0x80, CHR 0xA2] @ '' Detecting required operations'',
                      [CHR 0xE2, CHR 0x80, CHR 0xA2] @ '' Planning multi-platform optimization'',
                      [CHR 0xE2, CHR 0x80, CHR 0xA2] @ '' YouTube (16:9), Instagram (9:16), TikTok (9:16)'',
                      [CHR 0xE2, CHR 0x80, CHR 0xA2] @ '' Preparing emotion analysis'',
                      [CHR 0xE2, CHR 0x80, CHR 0xA2] @ '' Setting up audio enhancement'']\<rparr>)))
           \<lparr>starts := starts s @ [Uploading]\<rparr>)"

text \<open>
  Call \<open>k\<close> of \<^verbatim>\<open>startEditing\<close> from its first \<^verbatim>\<open>await\<close> to its second, run when the
  upload is answered: \<open>reply\<close> is what axios threw or the body \<^verbatim>\<open>uploadRes.data\<close>.
  Reading \<^verbatim>\<open>project_id\<close> can throw, and so can printing it into the address of the
  start-processing request, after \<^verbatim>\<open>setProjectId\<close> and the two log lines; then no
  request is sent.
\<close>

definition startEditing_uploaded :: "engine \<Rightarrow> nat \<Rightarrow> exn + jsval \<Rightarrow> app \<Rightarrow> app" where
  "startEditing_uploaded E k reply s =
     (case reply of
        Inl e \<Rightarrow> start_failed e (s\<lparr>starts := (starts s)[k := Finished]\<rparr>)
      | Inr data \<Rightarrow>
         (case getprop data ''project_id'' of
            Inl e \<Rightarrow> start_failed e (s\<lparr>starts := (starts s)[k := Finished]\<rparr>)
          | Inr projId \<Rightarrow>
             let s1 = addLog ''Starting AI analysis...''
                        (addLog ''Video uploaded successfully!'' (s\<lparr>projectId := projId\<rparr>))
             in (case ToString E projId of
                   Inl e \<Rightarrow> start_failed e (s1\<lparr>starts := (starts s)[k := Finished]\<rparr>)
                 | Inr t \<Rightarrow>
                    (send (POST (process_url t) None) s1)
                    \<lparr>starts := (starts s)[k := Starting projId]\<rparr>)))"

text \<open>
  Call \<open>k\<close> of \<^verbatim>\<open>startEditing\<close> after its second \<^verbatim>\<open>await\<close>, run when the
  start-processing request is answered: \<open>reply\<close> is what axios threw or the body, which
  is not looked at.
\<close>

definition startEditing_started :: "nat \<Rightarrow> jsval \<Rightarrow> exn + jsval \<Rightarrow> app \<Rightarrow> app" where
  "startEditing_started k projId reply s =
     (case reply of
        Inl e \<Rightarrow> start_failed e (s\<lparr>starts := (starts s)[k := Finished]\<rparr>)
      | Inr body \<Rightarrow>
         pollStatus projId
           (addLog ''AI Brain analyzing emotions and planning edits...''
             (s\<lparr>status := JStr ''processing'', starts := (starts s)[k := Finished]\<rparr>)))"

section \<open>Downloading\<close>

definition download_url :: "string \<Rightarrow> string \<Rightarrow> string" where
  "download_url t platform = API_BASE @ ''/api/download/'' @ t @ ''/'' @ platform"

text \<open>
  \<^verbatim>\<open>downloadVideo\<close> is a click handler with no \<^verbatim>\<open>try\<close>: when printing the project
  identifier throws, the handler ends there and the error is nobody's.
\<close>

definition downloadVideo :: "engine \<Rightarrow> string \<Rightarrow> app \<Rightarrow> app" where
  "downloadVideo E platform s =
     (if \<not> truthy (projectId s) then s
      else (case ToString E (projectId s) of
              Inl e \<Rightarrow> s\<lparr>uncaught := uncaught s @ [e]\<rparr>
            | Inr t \<Rightarrow>
               addLog (''Downloading '' @ platform @ '' version...'')
                 (s\<lparr>opened := opened s @ [download_url t platform]\<rparr>)))"

section \<open>Rendering\<close>

text \<open>
  What React accepts as a child of an element: text, numbers, and what it shows as
  nothing (booleans, \<^verbatim>\<open>null\<close>, \<^verbatim>\<open>undefined\<close>), and arrays of such; an object is an error.
\<close>

fun child_ok :: "jsval \<Rightarrow> bool" where
  "child_ok (JObj kvs) = False"
| "child_ok (JArr xs) = list_all child_ok xs"
| "child_ok v = True"

text \<open>
  \<^verbatim>\<open>v > 0\<close>: a number is compared as it is, \<^verbatim>\<open>true\<close> is 1, \<^verbatim>\<open>null\<close> is 0 and
  \<^verbatim>\<open>undefined\<close> is not a number; a string is converted by the engine; an array or
  object is first made a string, which can throw as in \<open>ToString\<close>.
\<close>

fun greater_zero :: "engine \<Rightarrow> jsval \<Rightarrow> exn + bool" where
  "greater_zero E JUndefined = Inr False"
| "greater_zero E JNull = Inr False"
| "greater_zero E (JBool b) = Inr b"
| "greater_zero E (JNum n) = Inr (0 < n)"
| "greater_zero E (JInf b) = Inr b"
| "greater_zero E (JStr t) = Inr (text_positive E t)"
| "greater_zero E v = (case ToString E v of Inl e \<Rightarrow> Inl e | Inr t \<Rightarrow> Inr (text_positive E t))"

text \<open>
  Two parts of the JSX depend on values from the server; everything else rendered is
  text the component made itself. The first: under \<^verbatim>\<open>progress > 0\<close> the progress is
  printed into the bar's width and shown, with the status, as children of a paragraph.
\<close>

definition progress_renders :: "engine \<Rightarrow> jsval \<Rightarrow> jsval \<Rightarrow> bool" where
  "progress_renders E p st =
     (case greater_zero E p of
        Inl e \<Rightarrow> False
      | Inr shown \<Rightarrow>
         (if shown
          then (case ToString E p of Inl e \<Rightarrow> False | Inr t \<Rightarrow> child_ok p \<and> child_ok st)
          else True))"

text \<open>
  The second: under \<^verbatim>\<open>status === 'completed' && outputs.master\<close> the download buttons
  are rendered, and with them the preview, whose address prints the project identifier.
\<close>

definition outputs_render :: "engine \<Rightarrow> jsval \<Rightarrow> jsval \<Rightarrow> jsval \<Rightarrow> bool" where
  "outputs_render E st master projId =
     (if st = JStr ''completed'' \<and> truthy master
      then (case ToString E projId of Inl e \<Rightarrow> False | Inr t \<Rightarrow> True)
      else True)"

text \<open>Whether rendering \<^verbatim>\<open>App\<close> in state \<open>s\<close> goes through.\<close>

definition render_ok :: "engine \<Rightarrow> app \<Rightarrow> bool" where
  "render_ok E s =
     (progress_renders E (progress s) (status s) \<and>
      outputs_render E (status s) (field (JObj (outputs s)) ''master'') (projectId s))"

text \<open>
  After a handler has run, React (version 18, which renders once for all the setters a
  handler called) renders the component again; an error thrown while rendering, with no
  error boundary around \<^verbatim>\<open>App\<close>, unmounts it for good. Timers and unanswered requests go
  on without it.
\<close>

definition rerender :: "engine \<Rightarrow> app \<Rightarrow> app" where
  "rerender E s = (if mounted s \<and> \<not> render_ok E s then s\<lparr>mounted := False\<rparr> else s)"

text \<open>
  The download buttons are rendered under
  \<^verbatim>\<open>status === 'completed' && outputs.master\<close> only, and only while the component is
  mounted.
\<close>

definition downloads_shown :: "app \<Rightarrow> bool" where
  "downloads_shown s =
     (mounted s \<and> status s = JStr ''completed'' \<and> truthy (field (JObj (outputs s)) ''master''))"

section \<open>The component as an event handler\<close>

text \<open>
  Everything that happens to the component is one of these events: the user picks a
  file, edits the prompt, presses the start button, presses a download button; the
  upload of call \<open>k\<close> of \<^verbatim>\<open>startEditing\<close> is answered, or its start-processing request;
  a timer fires; the \<open>n\<close>-th unanswered status request is answered. Requests can be
  answered in any order, and between a request and its answer anything else can happen.
  An event that cannot happen (a control that is not on the page, an answer to no
  request, a cleared timer firing) changes nothing. \<open>handle\<close> runs the handler, and
  \<open>step\<close> is the handler followed by React's rendering.
\<close>

datatype event =
    ChooseFile "jsfile option" string
  | TypePrompt string
  | ClickStart
  | UploadReply nat "exn + jsval"
  | StartReply nat "exn + jsval"
  | ClickDownload string
  | TimerFires nat
  | StatusReply nat "exn + jsval"

fun handle :: "engine \<Rightarrow> event \<Rightarrow> app \<Rightarrow> app" where
  "handle E (ChooseFile file url) s = (if mounted s then handleVideoUpload file url s else s)"
| "handle E (TypePrompt p) s = (if mounted s then s\<lparr>prompt := p\<rparr> else s)"
| "handle E ClickStart s = (if mounted s then startEditing s else s)"
| "handle E (UploadReply k reply) s =
     (if k < length (starts s) \<and> starts s ! k = Uploading
      then startEditing_uploaded E k reply s else s)"
| "handle E (StartReply k reply) s =
     (if k < length (starts s)
      then (case starts s ! k of
              Starting projId \<Rightarrow> startEditing_started k projId reply s
            | Uploading \<Rightarrow> s
            | Finished \<Rightarrow> s)
      else s)"
| "handle E (ClickDownload platform) s =
     (if downloads_shown s then downloadVideo E platform s else s)"
| "handle E (TimerFires i) s = pollStatus_tick E i s"
| "handle E (StatusReply n reply) s =
     (if n < length (inflight s)
      then pollStatus_resume E (inflight s ! n) reply
             (s\<lparr>inflight := take n (inflight s) @ drop (Suc n) (inflight s)\<rparr>)
      else s)"

definition step :: "engine \<Rightarrow> event \<Rightarrow> app \<Rightarrow> app" where
  "step E ev s = rerender E (handle E ev s)"

definition run :: "engine \<Rightarrow> event list \<Rightarrow> app \<Rightarrow> app" where
  "run E evs s = fold (step E) evs s"

text \<open>
  One poll that is answered before the next one is sent: timer \<open>i\<close> fires and the
  request it has just sent (the last one unanswered) is answered with \<open>data\<close>. The
  progress stored after each of a row of such polls is \<open>progress_seen\<close>.
\<close>

definition poll :: "engine \<Rightarrow> nat \<Rightarrow> jsval \<Rightarrow> app \<Rightarrow> app" where
  "poll E i data s =
     step E (StatusReply (length (inflight s)) (Inr data)) (step E (TimerFires i) s)"

fun progress_seen :: "engine \<Rightarrow> nat \<Rightarrow> jsval list \<Rightarrow> app \<Rightarrow> jsval list" where
  "progress_seen E i [] s = []"
| "progress_seen E i (d # ds) s = progress (poll E i d s) # progress_seen E i ds (poll E i d s)"

subsection \<open>A sample session\<close>

text \<open>
  An engine for the sample session, which prints safe integers only and compares no
  text with zero, so that the engine's own answers are never asked for.
\<close>

definition sample_engine :: engine where
  "sample_engine = \<lparr>num_text = (\<lambda>x. ''NaN''), text_positive = (\<lambda>t. False)\<rparr>"

text \<open>
  A user picks a clip, types a prompt and presses start; the server answers the upload
  with project \<^verbatim>\<open>p1\<close> and accepts the start request. \<open>sample_job\<close> is the component
  right after that, with its first timer running.
\<close>

definition sample_file :: jsfile where
  "sample_file = \<lparr>file_name = ''clip.mp4'', file_bytes = ''0123''\<rparr>"

definition sample_ready :: app where
  "sample_ready =
     run sample_engine
       [ChooseFile (Some sample_file) ''blob:clip'', TypePrompt ''make it exciting''] App"

definition sample_job :: app where
  "sample_job =
     run sample_engine
       [ClickStart,
        UploadReply 0 (Inr (JObj [(''project_id'', JStr ''p1'')])),
        StartReply 0 (Inr (JObj [(''status'', JStr ''started'')]))] sample_ready"

definition report :: "string \<Rightarrow> rat \<Rightarrow> jsval" where
  "report st n = JObj [(''status'', JStr st), (''progress_percentage'', JNum n)]"

definition report_done :: jsval where
  "report_done =
     JObj [(''status'', JStr ''completed''), (''progress_percentage'', JNum 100),
           (''output_video'', JStr ''outputs/p1.mp4'')]"

text \<open>An object that cannot be printed: it has an own property \<^verbatim>\<open>toString\<close>.\<close>

definition unprintable :: jsval where
  "unprintable = JObj [(''toString'', JNum 1)]"

subsection \<open>Notions used in the proofs\<close>

text \<open>
  \<open>ivl_le xs ys\<close>: the timers \<open>ys\<close> are the timers \<open>xs\<close> some steps later: none is lost,
  each keeps its project and delay, and none that was cleared runs again.
\<close>

definition ivl_le :: "interval list \<Rightarrow> interval list \<Rightarrow> bool" where
  "ivl_le xs ys =
     (length xs \<le> length ys \<and>
      (\<forall>k<length xs.
         ivl_proj (ys ! k) = ivl_proj (xs ! k) \<and> ivl_delay (ys ! k) = ivl_delay (xs ! k) \<and>
         (ivl_active (ys ! k) \<longrightarrow> ivl_active (xs ! k))))"


text \<open>\<open>printable E v\<close>: printing \<open>v\<close> does not throw.\<close>

definition printable :: "engine \<Rightarrow> jsval \<Rightarrow> bool" where
  "printable E v = (case ToString E v of Inl e \<Rightarrow> False | Inr t \<Rightarrow> True)"

text \<open>
  \<open>summary_prints E data\<close>: the body \<open>data\<close> has no \<^verbatim>\<open>ai_analysis\<close>, or one whose six
  lines can be printed.
\<close>

definition summary_prints :: "engine \<Rightarrow> jsval \<Rightarrow> bool" where
  "summary_prints E data =
     (if truthy (field data ''ai_analysis'')
      then (case analysis_lines E (field data ''ai_analysis'') of Inl e \<Rightarrow> False | Inr ls \<Rightarrow> True)
      else True)"

text \<open>
  \<open>wired E s\<close>: the project identifier of every timer, and of every call of
  \<^verbatim>\<open>startEditing\<close> that waits for its start-processing answer, can be printed.
\<close>

definition wired :: "engine \<Rightarrow> app \<Rightarrow> bool" where
  "wired E s =
     (list_all (\<lambda>t. printable E (ivl_proj t)) (intervals s) \<and>
      list_all (\<lambda>g. case g of Starting p \<Rightarrow> printable E p | Uploading \<Rightarrow> True | Finished \<Rightarrow> True)
        (starts s))"

text \<open>\<open>settled E s\<close>: a mounted component is one whose rendering went through.\<close>

definition settled :: "engine \<Rightarrow> app \<Rightarrow> bool" where
  "settled E s = (mounted s \<longrightarrow> render_ok E s)"


text \<open>\<open>answers k ev\<close>: the event is an answer to a request of call \<open>k\<close> of \<^verbatim>\<open>startEditing\<close>.\<close>

fun answers :: "nat \<Rightarrow> event \<Rightarrow> bool" where
  "answers k (UploadReply j reply) = (j = k)"
| "answers k (StartReply j reply) = (j = k)"
| "answers k ev = False"

text \<open>\<open>from_start ev\<close>: the event belongs to a call of \<^verbatim>\<open>startEditing\<close>.\<close>

fun from_start :: "event \<Rightarrow> bool" where
  "from_start ClickStart = True"
| "from_start (UploadReply k reply) = True"
| "from_start (StartReply k reply) = True"
| "from_start ev = False"

text \<open>
  \<open>failed_reply E reply\<close>: the answer has a body whose status is \<^verbatim>\<open>failed\<close> and whose
  summary can be printed, so that the callback gets as far as reporting the failure.
\<close>

definition failed_reply :: "engine \<Rightarrow> exn + jsval \<Rightarrow> bool" where
  "failed_reply E reply =
     (case reply of
        Inl e \<Rightarrow> False
      | Inr data \<Rightarrow> getprop data ''status'' = Inr (JStr ''failed'') \<and> summary_prints E data)"

section \<open>The Job Orchestrator\<close>

text \<open>
  Modelled from the spec: the server's Job Orchestrator (the backend behind
  \<^verbatim>\<open>/api/process/complete\<close> is not among the sources). A Job has a Status, a progress
  percentage and the artifacts made so far; there is at most one Job per Project, and it
  is terminal once its Status is \<open>Completed\<close> or \<open>Failed\<close>. Start-processing refuses to
  start a second Job while one is non-terminal for the same Project (the call is then a
  no-op); otherwise it creates the Job, queued, and one execution of it begins.
  \<open>executions\<close> lists the executions begun, in order.
\<close>

datatype job_status = Queued | Analyzing | Processing | Completed | Failed

record job =
  job_status :: job_status
  job_progress :: nat
  job_artifacts :: "(string \<times> string) list"

record orchestrator =
  jobs :: "string \<rightharpoonup> job"
  executions :: "string list"

text \<open>
  Modelled from the spec: a Job is terminal once its Status reaches \<open>Completed\<close> or
  \<open>Failed\<close>.
\<close>

definition terminal :: "job_status \<Rightarrow> bool" where
  "terminal st = (st = Completed \<or> st = Failed)"

text \<open>
  Modelled from the spec: the Job created when processing starts, in the first state of
  the state machine, with no progress and no artifact yet.
\<close>

definition new_job :: "string \<Rightarrow> orchestrator \<Rightarrow> orchestrator" where
  "new_job p s =
     s\<lparr>jobs := (jobs s)(p \<mapsto> \<lparr>job_status = Queued, job_progress = 0, job_artifacts = []\<rparr>),
       executions := executions s @ [p]\<rparr>"

text \<open>
  Modelled from the spec: the start-processing operation of the Job Orchestrator, which
  is idempotent per Project: a call on a Project whose Job is non-terminal is a no-op,
  not a new Job.
\<close>

definition start_processing :: "string \<Rightarrow> orchestrator \<Rightarrow> orchestrator" where
  "start_processing p s =
     (case jobs s p of
        None \<Rightarrow> new_job p s
      | Some j \<Rightarrow> if terminal (job_status j) then new_job p s else s)"

section \<open>Basic facts\<close>

lemma getprop_field: "getprop v k = Inr x \<Longrightarrow> getprop v k' = Inr (field v k')"
  by (cases v) (simp_all add: field_def)

lemma field_truthy_getprop: "truthy (field v k) \<Longrightarrow> getprop v k' = Inr (field v k')"
  by (cases v) (simp_all add: field_def)

lemma addLog_fields [simp]:
  "videoFile (addLog m s) = videoFile s"
  "videoPreview (addLog m s) = videoPreview s"
  "prompt (addLog m s) = prompt s"
  "projectId (addLog m s) = projectId s"
  "status (addLog m s) = status s"
  "progress (addLog m s) = progress s"
  "aiUnderstanding (addLog m s) = aiUnderstanding s"
  "terminalLogs (addLog m s) = terminalLogs s @ [''[AI] '' @ m]"
  "outputs (addLog m s) = outputs s"
  "alerts (addLog m s) = alerts s"
  "requests (addLog m s) = requests s"
  "opened (addLog m s) = opened s"
  "console (addLog m s) = console s"
  "uncaught (addLog m s) = uncaught s"
  "intervals (addLog m s) = intervals s"
  "inflight (addLog m s) = inflight s"
  "starts (addLog m s) = starts s"
  "mounted (addLog m s) = mounted s"
  by (simp_all add: addLog_def)

lemma fold_addLog_fields [simp]:
  "videoFile (fold addLog ms s) = videoFile s"
  "videoPreview (fold addLog ms s) = videoPreview s"
  "prompt (fold addLog ms s) = prompt s"
  "projectId (fold addLog ms s) = projectId s"
  "status (fold addLog ms s) = status s"
  "progress (fold addLog ms s) = progress s"
  "aiUnderstanding (fold addLog ms s) = aiUnderstanding s"
  "terminalLogs (fold addLog ms s) = terminalLogs s @ map (\<lambda>m. ''[AI] '' @ m) ms"
  "outputs (fold addLog ms s) = outputs s"
  "alerts (fold addLog ms s) = alerts s"
  "requests (fold addLog ms s) = requests s"
  "opened (fold addLog ms s) = opened s"
  "console (fold addLog ms s) = console s"
  "uncaught (fold addLog ms s) = uncaught s"
  "intervals (fold addLog ms s) = intervals s"
  "inflight (fold addLog ms s) = inflight s"
  "starts (fold addLog ms s) = starts s"
  "mounted (fold addLog ms s) = mounted s"
  by (induction ms arbitrary: s; simp)+

lemma alert_fields [simp]:
  "videoFile (alert m s) = videoFile s"
  "videoPreview (alert m s) = videoPreview s"
  "prompt (alert m s) = prompt s"
  "projectId (alert m s) = projectId s"
  "status (alert m s) = status s"
  "progress (alert m s) = progress s"
  "aiUnderstanding (alert m s) = aiUnderstanding s"
  "terminalLogs (alert m s) = terminalLogs s"
  "outputs (alert m s) = outputs s"
  "alerts (alert m s) = alerts s @ [m]"
  "requests (alert m s) = requests s"
  "opened (alert m s) = opened s"
  "console (alert m s) = console s"
  "uncaught (alert m s) = uncaught s"
  "intervals (alert m s) = intervals s"
  "inflight (alert m s) = inflight s"
  "starts (alert m s) = starts s"
  "mounted (alert m s) = mounted s"
  by (simp_all add: alert_def)

lemma send_fields [simp]:
  "videoFile (send r s) = videoFile s"
  "videoPreview (send r s) = videoPreview s"
  "prompt (send r s) = prompt s"
  "projectId (send r s) = projectId s"
  "status (send r s) = status s"
  "progress (send r s) = progress s"
  "aiUnderstanding (send r s) = aiUnderstanding s"
  "terminalLogs (send r s) = terminalLogs s"
  "outputs (send r s) = outputs s"
  "alerts (send r s) = alerts s"
  "requests (send r s) = requests s @ [r]"
  "opened (send r s) = opened s"
  "console (send r s) = console s"
  "uncaught (send r s) = uncaught s"
  "intervals (send r s) = intervals s"
  "inflight (send r s) = inflight s"
  "starts (send r s) = starts s"
  "mounted (send r s) = mounted s"
  by (simp_all add: send_def)

lemma console_error_fields [simp]:
  "videoFile (console_error l e s) = videoFile s"
  "videoPreview (console_error l e s) = videoPreview s"
  "prompt (console_error l e s) = prompt s"
  "projectId (console_error l e s) = projectId s"
  "status (console_error l e s) = status s"
  "progress (console_error l e s) = progress s"
  "aiUnderstanding (console_error l e s) = aiUnderstanding s"
  "terminalLogs (console_error l e s) = terminalLogs s"
  "outputs (console_error l e s) = outputs s"
  "alerts (console_error l e s) = alerts s"
  "requests (console_error l e s) = requests s"
  "opened (console_error l e s) = opened s"
  "console (console_error l e s) = console s @ [(l, e)]"
  "uncaught (console_error l e s) = uncaught s"
  "intervals (console_error l e s) = intervals s"
  "inflight (console_error l e s) = inflight s"
  "starts (console_error l e s) = starts s"
  "mounted (console_error l e s) = mounted s"
  by (simp_all add: console_error_def)

lemma clearInterval_fields [simp]:
  "videoFile (clearInterval i s) = videoFile s"
  "videoPreview (clearInterval i s) = videoPreview s"
  "prompt (clearInterval i s) = prompt s"
  "projectId (clearInterval i s) = projectId s"
  "status (clearInterval i s) = status s"
  "progress (clearInterval i s) = progress s"
  "aiUnderstanding (clearInterval i s) = aiUnderstanding s"
  "terminalLogs (clearInterval i s) = terminalLogs s"
  "outputs (clearInterval i s) = outputs s"
  "alerts (clearInterval i s) = alerts s"
  "requests (clearInterval i s) = requests s"
  "opened (clearInterval i s) = opened s"
  "console (clearInterval i s) = console s"
  "uncaught (clearInterval i s) = uncaught s"
  "inflight (clearInterval i s) = inflight s"
  "starts (clearInterval i s) = starts s"
  "mounted (clearInterval i s) = mounted s"
  by (simp_all add: clearInterval_def)

lemma pollStatus_fields [simp]:
  "videoFile (pollStatus p s) = videoFile s"
  "videoPreview (pollStatus p s) = videoPreview s"
  "prompt (pollStatus p s) = prompt s"
  "projectId (pollStatus p s) = projectId s"
  "status (pollStatus p s) = status s"
  "progress (pollStatus p s) = progress s"
  "aiUnderstanding (pollStatus p s) = aiUnderstanding s"
  "terminalLogs (pollStatus p s) = terminalLogs s"
  "outputs (pollStatus p s) = outputs s"
  "alerts (pollStatus p s) = alerts s"
  "requests (pollStatus p s) = requests s"
  "opened (pollStatus p s) = opened s"
  "console (pollStatus p s) = console s"
  "uncaught (pollStatus p s) = uncaught s"
  "intervals (pollStatus p s) = intervals s @ [\<lparr>ivl_proj = p, ivl_delay = 2000, ivl_active = True\<rparr>]"
  "inflight (pollStatus p s) = inflight s"
  "starts (pollStatus p s) = starts s"
  "mounted (pollStatus p s) = mounted s"
  by (simp_all add: pollStatus_def)

lemma rerender_fields [simp]:
  "videoFile (rerender E s) = videoFile s"
  "videoPreview (rerender E s) = videoPreview s"
  "prompt (rerender E s) = prompt s"
  "projectId (rerender E s) = projectId s"
  "status (rerender E s) = status s"
  "progress (rerender E s) = progress s"
  "aiUnderstanding (rerender E s) = aiUnderstanding s"
  "terminalLogs (rerender E s) = terminalLogs s"
  "outputs (rerender E s) = outputs s"
  "alerts (rerender E s) = alerts s"
  "requests (rerender E s) = requests s"
  "opened (rerender E s) = opened s"
  "console (rerender E s) = console s"
  "uncaught (rerender E s) = uncaught s"
  "intervals (rerender E s) = intervals s"
  "inflight (rerender E s) = inflight s"
  "starts (rerender E s) = starts s"
  by (simp_all add: rerender_def)

lemma start_failed_fields [simp]:
  "videoFile (start_failed e s) = videoFile s"
  "videoPreview (start_failed e s) = videoPreview s"
  "prompt (start_failed e s) = prompt s"
  "projectId (start_failed e s) = projectId s"
  "status (start_failed e s) = status s"
  "progress (start_failed e s) = progress s"
  "aiUnderstanding (start_failed e s) = aiUnderstanding s"
  "terminalLogs (start_failed e s) = terminalLogs s @ [''[AI] Error: '' @ message e]"
  "outputs (start_failed e s) = outputs s"
  "alerts (start_failed e s) = alerts s @ [''Processing failed. Please try again.'']"
  "requests (start_failed e s) = requests s"
  "opened (start_failed e s) = opened s"
  "console (start_failed e s) = console s @ [(''Error:'', e)]"
  "uncaught (start_failed e s) = uncaught s"
  "intervals (start_failed e s) = intervals s"
  "inflight (start_failed e s) = inflight s"
  "starts (start_failed e s) = starts s"
  "mounted (start_failed e s) = mounted s"
  by (simp_all add: start_failed_def)

lemma length_clearInterval [simp]: "length (intervals (clearInterval i s)) = length (intervals s)"
  by (simp add: clearInterval_def)

lemma mounted_rerender: "mounted (rerender E s) = (mounted s \<and> render_ok E s)"
  by (auto simp: rerender_def)

lemmas run_defs = run_def step_def rerender_def render_ok_def progress_renders_def outputs_render_def App_def handleVideoUpload_def addLog_def
    startEditing_def startEditing_uploaded_def startEditing_started_def start_failed_def
    trim_def ws1_def ws2_def ws3_def send_def pollStatus_def pollStatus_tick_def pollStatus_resume_def
    clearInterval_def alert_def status_logs_def js_or_def field_def Let_def upload_form_def
    process_url_def status_url_def API_BASE_def downloads_shown_def downloadVideo_def download_url_def
    console_error_def analysis_lines_def NumberToString_def set_summary_def report_status_def

lemma sample_ready_eq: "sample_ready =
   App\<lparr>videoFile := Some sample_file, videoPreview := Some ''blob:clip'',
       prompt := ''make it exciting'',
       terminalLogs := [''[AI] System ready.'', ''[AI] Video uploaded: clip.mp4'']\<rparr>"
  by (simp add: sample_ready_def sample_file_def run_defs)

lemma sample_job_eq: "sample_job =
   \<lparr>videoFile = Some sample_file, videoPreview = Some ''blob:clip'', prompt = ''make it exciting'',
    projectId = JStr ''p1'', status = JStr ''processing'', progress = JNum 0,
    aiUnderstanding =
      [[CHR 0xE2, CHR 0x80, CHR 0xA2] @ '' Analyzing your prompt...'',
       [CHR 0xE2, CHR 0x80, CHR 0xA2] @ '' Detecting required operations'',
       [CHR 0xE2, CHR 0x80, CHR 0xA2] @ '' Planning multi-platform optimization'',
       [CHR 0xE2, CHR 0x80, CHR 0xA2] @ '' YouTube (16:9), Instagram (9:16), TikTok (9:16)'',
       [CHR 0xE2, CHR 0x80, CHR 0xA2] @ '' Preparing emotion analysis'',
       [CHR 0xE2, CHR 0x80, CHR 0xA2] @ '' Setting up audio enhancement''],
    terminalLogs =
      [''[AI] System ready.'', ''[AI] Video uploaded: clip.mp4'',
       ''[AI] Uploading video...'', ''[AI] Video uploaded successfully!'',
       ''[AI] Starting AI analysis...'',
       ''[AI] AI Brain analyzing emotions and planning edits...''],
    outputs = [(''youtube'', JNull), (''instagram'', JNull), (''tiktok'', JNull), (''master'', JNull)],
    alerts = [],
    requests =
      [POST ''http://localhost:8000/api/upload/multiplatform''
        (Some [(''video'', FormFile sample_file), (''prompt'', FormText ''make it exciting''),
           (''platforms'', FormText ''youtube,instagram,tiktok'')]),
       POST ''http://localhost:8000/api/process/complete/p1'' None],
    opened = [], console = [], uncaught = [],
    intervals = [\<lparr>ivl_proj = JStr ''p1'', ivl_delay = 2000, ivl_active = True\<rparr>],
    inflight = [], starts = [Finished], mounted = True\<rparr>"
  by (simp add: sample_job_def sample_ready_eq sample_file_def sample_engine_def run_defs)

lemma ivl_le_refl [simp]: "ivl_le xs xs"
  by (simp add: ivl_le_def)

lemma ivl_le_trans: "ivl_le xs ys \<Longrightarrow> ivl_le ys zs \<Longrightarrow> ivl_le xs zs"
  by (auto simp: ivl_le_def)

lemma ivl_le_append [simp]: "ivl_le xs (xs @ ys)"
  by (simp add: ivl_le_def nth_append)

lemma ivl_le_clear: "ivl_le (intervals s) (intervals (clearInterval i s))"
  by (auto simp: ivl_le_def clearInterval_def nth_list_update)

lemma handleVideoUpload_keeps [simp]:
  "intervals (handleVideoUpload f u s) = intervals s"
  "inflight (handleVideoUpload f u s) = inflight s"
  "starts (handleVideoUpload f u s) = starts s"
  "status (handleVideoUpload f u s) = status s"
  "progress (handleVideoUpload f u s) = progress s"
  "requests (handleVideoUpload f u s) = requests s"
  "alerts (handleVideoUpload f u s) = alerts s"
  by (simp_all add: handleVideoUpload_def split: option.splits)

lemma downloadVideo_keeps [simp]:
  "intervals (downloadVideo E p s) = intervals s"
  "inflight (downloadVideo E p s) = inflight s"
  "starts (downloadVideo E p s) = starts s"
  "status (downloadVideo E p s) = status s"
  "progress (downloadVideo E p s) = progress s"
  "requests (downloadVideo E p s) = requests s"
  "alerts (downloadVideo E p s) = alerts s"
  by (simp_all add: downloadVideo_def split: sum.splits)

lemma tick_keeps [simp]:
  "intervals (pollStatus_tick E i s) = intervals s"
  "starts (pollStatus_tick E i s) = starts s"
  "status (pollStatus_tick E i s) = status s"
  "progress (pollStatus_tick E i s) = progress s"
  "alerts (pollStatus_tick E i s) = alerts s"
  "terminalLogs (pollStatus_tick E i s) = terminalLogs s"
  by (simp_all add: pollStatus_tick_def split: sum.splits)


lemma tick_active:
  "i < length (intervals s) \<Longrightarrow> ivl_active (intervals s ! i) \<Longrightarrow>
   ToString E (ivl_proj (intervals s ! i)) = Inr t \<Longrightarrow>
   requests (pollStatus_tick E i s) = requests s @ [GET (status_url t)] \<and>
   inflight (pollStatus_tick E i s) = inflight s @ [i]"
  by (simp add: pollStatus_tick_def)

lemma startEditing_keeps [simp]:
  "intervals (startEditing s) = intervals s"
  "inflight (startEditing s) = inflight s"
  "status (startEditing s) = status s"
  "progress (startEditing s) = progress s"
  "projectId (startEditing s) = projectId s"
  by (simp_all add: startEditing_def split: option.splits)

lemma uploaded_keeps [simp]:
  "intervals (startEditing_uploaded E k r s) = intervals s"
  "inflight (startEditing_uploaded E k r s) = inflight s"
  "status (startEditing_uploaded E k r s) = status s"
  "progress (startEditing_uploaded E k r s) = progress s"
  by (simp_all add: startEditing_uploaded_def Let_def split: sum.splits)

lemma started_keeps [simp]:
  "inflight (startEditing_started k p r s) = inflight s"
  "progress (startEditing_started k p r s) = progress s"
  "requests (startEditing_started k p r s) = requests s"
  by (simp_all add: startEditing_started_def split: sum.splits)

lemma ivl_le_started: "ivl_le (intervals s) (intervals (startEditing_started k p r s))"
  by (simp add: startEditing_started_def split: sum.splits)

lemma set_summary_cases:
  "set_summary E data s = Inr s2 \<Longrightarrow>
   s2 = s \<or> (\<exists>ls. analysis_lines E (field data ''ai_analysis'') = Inr ls \<and> s2 = s\<lparr>aiUnderstanding := ls\<rparr>)"
  by (auto simp: set_summary_def split: if_splits sum.splits)

lemma set_summary_keeps:
  assumes "set_summary E data s = Inr s2"
  shows "inflight s2 = inflight s" "requests s2 = requests s" "starts s2 = starts s"
    "intervals s2 = intervals s" "status s2 = status s" "progress s2 = progress s"
    "alerts s2 = alerts s" "terminalLogs s2 = terminalLogs s" "outputs s2 = outputs s"
    "mounted s2 = mounted s" "projectId s2 = projectId s" "console s2 = console s"
  using set_summary_cases [OF assms] by auto

lemma report_status_keeps [simp]:
  "inflight (report_status i st data s) = inflight s"
  "requests (report_status i st data s) = requests s"
  "starts (report_status i st data s) = starts s"
  "status (report_status i st data s) = status s"
  "progress (report_status i st data s) = progress s"
  "aiUnderstanding (report_status i st data s) = aiUnderstanding s"
  "mounted (report_status i st data s) = mounted s"
  "projectId (report_status i st data s) = projectId s"
  "console (report_status i st data s) = console s"
  by (simp_all add: report_status_def Let_def)

lemma report_status_intervals:
  "intervals (report_status i st data s) =
     (if st = JStr ''completed'' \<or> st = JStr ''failed'' then intervals (clearInterval i s)
      else intervals s)"
  by (auto simp: report_status_def Let_def clearInterval_def)

lemma report_status_alerts:
  "alerts (report_status i st data s) =
     (if st = JStr ''failed'' then alerts s @ [''Processing failed. Please try again.''] else alerts s)"
  by (simp add: report_status_def Let_def)

lemma report_status_outputs:
  "outputs (report_status i st data s) =
     (if st = JStr ''completed''
      then [(''youtube'', field data ''output_video''), (''instagram'', field data ''output_video''),
            (''tiktok'', field data ''output_video''), (''master'', field data ''output_video'')]
      else outputs s)"
  by (simp add: report_status_def Let_def)

lemma resume_keeps [simp]:
  "inflight (pollStatus_resume E i r s) = inflight s"
  "requests (pollStatus_resume E i r s) = requests s"
  "starts (pollStatus_resume E i r s) = starts s"
  "mounted (pollStatus_resume E i r s) = mounted s"
  "projectId (pollStatus_resume E i r s) = projectId s"
  by (auto simp: pollStatus_resume_def set_summary_keeps split: sum.splits)

lemma intervals_resume:
  "intervals (pollStatus_resume E i r s) = intervals s \<or>
   intervals (pollStatus_resume E i r s) = intervals (clearInterval i s)"
  by (auto simp: pollStatus_resume_def report_status_intervals set_summary_keeps clearInterval_def
      split: sum.splits)

lemma length_intervals_resume [simp]:
  "length (intervals (pollStatus_resume E i reply s)) = length (intervals s)"
  using intervals_resume [of E i reply s] by (auto simp: clearInterval_def)

lemma ivl_le_resume: "ivl_le (intervals s) (intervals (pollStatus_resume E i r s))"
  using intervals_resume [of E i r s] ivl_le_clear [of s i] by auto

lemma ivl_le_handle: "ivl_le (intervals s) (intervals (handle E ev s))"
proof (cases ev)
  case (StartReply k r)
  then show ?thesis by (simp add: ivl_le_started split: stage.splits)
next
  case (StatusReply n r)
  then show ?thesis
    using ivl_le_resume [of "s\<lparr>inflight := take n (inflight s) @ drop (Suc n) (inflight s)\<rparr>" E "inflight s ! n" r]
    by simp
qed simp_all

lemma ivl_le_step: "ivl_le (intervals s) (intervals (step E ev s))"
  by (simp add: step_def ivl_le_handle)

lemma ivl_le_run: "ivl_le (intervals s) (intervals (run E evs s))"
proof (induction evs arbitrary: s)
  case Nil
  show ?case by (simp add: run_def)
next
  case (Cons ev evs)
  have "ivl_le (intervals s) (intervals (step E ev s))" by (rule ivl_le_step)
  moreover have "ivl_le (intervals (step E ev s)) (intervals (run E evs (step E ev s)))" by (rule Cons.IH)
  ultimately show ?case unfolding run_def by (auto intro: ivl_le_trans)
qed

lemma run_Cons: "run E (ev # evs) s = run E evs (step E ev s)"
  by (simp add: run_def)

lemma run_Nil: "run E [] s = s"
  by (simp add: run_def)

lemma run_append: "run E (evs @ evs') s = run E evs' (run E evs s)"
  by (simp add: run_def)



text \<open>A call of \<^verbatim>\<open>startEditing\<close> stays where it is until one of its own requests is answered.\<close>

lemma starts_handle:
  assumes "k < length (starts s)" "\<not> answers k ev"
  shows "k < length (starts (handle E ev s)) \<and> starts (handle E ev s) ! k = starts s ! k"
proof (cases ev)
  case ClickStart
  with assms show ?thesis by (simp add: startEditing_def alert_def nth_append split: option.splits)
next
  case (UploadReply j r)
  with assms show ?thesis
    by (auto simp: startEditing_uploaded_def Let_def split: sum.splits)
next
  case (StartReply j r)
  with assms show ?thesis
    by (auto simp: startEditing_started_def split: sum.splits stage.splits)
qed (use assms in simp_all)

lemma starts_run:
  assumes "k < length (starts s)" "list_all (\<lambda>ev. \<not> answers k ev) evs"
  shows "k < length (starts (run E evs s)) \<and> starts (run E evs s) ! k = starts s ! k"
  using assms
proof (induction evs arbitrary: s)
  case Nil
  then show ?case by (simp add: run_def)
next
  case (Cons ev evs)
  from Cons.prems have 1: "k < length (starts (step E ev s)) \<and> starts (step E ev s) ! k = starts s ! k"
    using starts_handle [of k s ev E] by (simp add: step_def)
  with Cons.prems have "k < length (starts (run E evs (step E ev s))) \<and>
      starts (run E evs (step E ev s)) ! k = starts (step E ev s) ! k"
    by (intro Cons.IH) simp_all
  with 1 show ?case by (simp add: run_def)
qed

text \<open>After a step, a component that is mounted is one that rendered.\<close>

lemma settled_rerender [simp]: "settled E (rerender E s)"
  by (simp add: settled_def rerender_def)

lemma settled_step [simp]: "settled E (step E ev s)"
  by (simp add: step_def)



lemma settled_App [simp]: "settled E App"
  by (simp add: settled_def render_ok_def progress_renders_def outputs_render_def App_def field_def)

text \<open>
  In every state reached from the initial one, an unanswered status request belongs to
  a timer that exists.
\<close>

lemma inflight_valid_handle:
  assumes "\<forall>i \<in> set (inflight s). i < length (intervals s)"
  shows "\<forall>i \<in> set (inflight (handle E ev s)). i < length (intervals (handle E ev s))"
proof -
  have len: "length (intervals s) \<le> length (intervals (handle E ev s))"
    using ivl_le_handle [of s E ev] by (simp add: ivl_le_def)
  have "\<forall>i \<in> set (inflight (handle E ev s)). i \<in> set (inflight s) \<or> i < length (intervals s)"
  proof (cases ev)
    case (StartReply k r)
    then show ?thesis by (simp split: stage.splits)
  next
    case (TimerFires j)
    then show ?thesis by (auto simp: pollStatus_tick_def split: sum.splits)
  next
    case (StatusReply n reply)
    then show ?thesis by (auto dest: in_set_takeD in_set_dropD)
  qed auto
  with assms len show ?thesis by fastforce
qed

lemma inflight_valid_run:
  "\<forall>i \<in> set (inflight s). i < length (intervals s) \<Longrightarrow>
   \<forall>i \<in> set (inflight (run E evs s)). i < length (intervals (run E evs s))"
proof (induction evs arbitrary: s)
  case Nil
  then show ?case by (simp add: run_def)
next
  case (Cons ev evs)
  from Cons.prems have "\<forall>i \<in> set (inflight (step E ev s)). i < length (intervals (step E ev s))"
    using inflight_valid_handle [of s E ev] by (simp add: step_def)
  then have "\<forall>i \<in> set (inflight (run E evs (step E ev s))). i < length (intervals (run E evs (step E ev s)))"
    by (rule Cons.IH)
  then show ?case by (simp add: run_def)
qed

lemma inflight_valid_App:
  "n < length (inflight (run E evs App)) \<Longrightarrow>
   inflight (run E evs App) ! n < length (intervals (run E evs App))"
proof -
  assume n: "n < length (inflight (run E evs App))"
  have "\<forall>i \<in> set (inflight App). i < length (intervals App)" by (simp add: App_def)
  then have "\<forall>i \<in> set (inflight (run E evs App)). i < length (intervals (run E evs App))"
    by (rule inflight_valid_run)
  with n show ?thesis by simp
qed

lemma printable_iff: "printable E v \<longleftrightarrow> (\<exists>t. ToString E v = Inr t)"
  by (simp add: printable_def split: sum.splits)

lemma summary_prints_iff:
  "summary_prints E data \<longleftrightarrow> (\<exists>s2. set_summary E data s = Inr s2)"
  by (simp add: summary_prints_def set_summary_def split: sum.splits)

lemma list_all_update:
  "list_all P xs \<Longrightarrow> P x \<Longrightarrow> list_all P (xs[k := x])"
  using set_update_subset_insert [of xs k x] by (auto simp: list_all_iff)

text \<open>Every timer was made for a project identifier that had just been printed.\<close>

lemma wired_handle:
  assumes "wired E s"
  shows "wired E (handle E ev s)"
proof (cases ev)
  case (ChooseFile f u)
  with assms show ?thesis by (simp add: wired_def)
next
  case (TypePrompt p)
  with assms show ?thesis by (simp add: wired_def)
next
  case ClickStart
  with assms show ?thesis
    by (auto simp: wired_def startEditing_def alert_def split: option.splits)
next
  case (UploadReply k r)
  from assms UploadReply show ?thesis
    by (auto simp: wired_def startEditing_uploaded_def Let_def printable_def intro!: list_all_update split: sum.splits)
next
  case (StartReply k r)
  show ?thesis
  proof (cases "k < length (starts s)")
    case True
    show ?thesis
    proof (cases "starts s ! k")
      case (Starting p)
      with True assms have p: "printable E p"
        by (auto simp: wired_def list_all_length split: stage.splits)
      from assms StartReply True Starting p show ?thesis
        by (auto simp: wired_def startEditing_started_def intro!: list_all_update split: sum.splits)
    qed (use assms StartReply True in simp_all)
  next
    case False
    with assms StartReply show ?thesis by simp
  qed
next
  case (ClickDownload p)
  with assms show ?thesis by (simp add: wired_def)
next
  case (TimerFires i)
  with assms show ?thesis by (simp add: wired_def)
next
  case (StatusReply n r)
  have "list_all (\<lambda>t. printable E (ivl_proj t)) (intervals (pollStatus_resume E i r s'))"
    if "list_all (\<lambda>t. printable E (ivl_proj t)) (intervals s')" for i s'
    using that intervals_resume [of E i r s']
    by (auto simp: clearInterval_def list_all_length nth_list_update)
  with assms StatusReply show ?thesis by (simp add: wired_def)
qed

lemma wired_step: "wired E s \<Longrightarrow> wired E (step E ev s)"
  using wired_handle [of E s ev] by (simp add: step_def wired_def)

lemma wired_run: "wired E s \<Longrightarrow> wired E (run E evs s)"
  by (induction evs arbitrary: s) (simp_all add: run_def wired_step)

lemma wired_App [simp]: "wired E App"
  by (simp add: wired_def App_def)

lemma timers_printable:
  "i < length (intervals (run E evs App)) \<Longrightarrow> printable E (ivl_proj (intervals (run E evs App) ! i))"
  using wired_run [OF wired_App, of E evs] by (simp add: wired_def list_all_length)

lemma resume_status:
  "getprop data ''status'' = Inr st \<Longrightarrow> status (pollStatus_resume E i (Inr data) s) = st"
  by (auto simp: pollStatus_resume_def set_summary_keeps split: sum.splits)

lemma resume_progress:
  "getprop data ''status'' = Inr st \<Longrightarrow>
   progress (pollStatus_resume E i (Inr data) s) = js_or (field data ''progress_percentage'') (JNum 0)"
  by (auto simp: pollStatus_resume_def set_summary_keeps split: sum.splits)

lemma resume_running_intervals:
  "getprop data ''status'' = Inr st \<Longrightarrow> st \<noteq> JStr ''completed'' \<Longrightarrow> st \<noteq> JStr ''failed'' \<Longrightarrow>
   intervals (pollStatus_resume E i (Inr data) s) = intervals s"
  by (auto simp: pollStatus_resume_def set_summary_keeps report_status_intervals split: sum.splits)

lemma resume_terminal_intervals:
  assumes "getprop data ''status'' = Inr st" "st = JStr ''completed'' \<or> st = JStr ''failed''"
    and "summary_prints E data"
  shows "intervals (pollStatus_resume E i (Inr data) s) = intervals (clearInterval i s)"
proof -
  from assms(3) obtain s2 where s2: "set_summary E data
      (s\<lparr>status := st, progress := js_or (field data ''progress_percentage'') (JNum 0)\<rparr>) = Inr s2"
    unfolding summary_prints_iff [where s = "s\<lparr>status := st, progress := js_or (field data ''progress_percentage'') (JNum 0)\<rparr>"]
    by blast
  with assms(1,2) show ?thesis
    by (auto simp: pollStatus_resume_def report_status_intervals set_summary_keeps [OF s2] clearInterval_def)
qed

lemma render_ok_inflight [simp]: "render_ok E (r\<lparr>inflight := xs\<rparr>) = render_ok E r"
  by (simp add: render_ok_def)

lemma rerender_inflight: "rerender E (r\<lparr>inflight := xs\<rparr>) = (rerender E r)\<lparr>inflight := xs\<rparr>"
  by (simp add: rerender_def)

lemma poll_eq:
  assumes "i < length (intervals s)" "ivl_active (intervals s ! i)"
    and "ToString E (ivl_proj (intervals s ! i)) = Inr t"
  shows "poll E i d s =
    rerender E (pollStatus_resume E i (Inr d) (rerender E (send (GET (status_url t)) s)))"
proof -
  define r where "r = send (GET (status_url t)) s"
  define u where "u = step E (TimerFires i) s"
  have u: "u = (rerender E r)\<lparr>inflight := inflight s @ [i]\<rparr>"
    using assms by (simp add: u_def r_def step_def pollStatus_tick_def rerender_inflight)
  have fl: "inflight u = inflight s @ [i]" by (simp add: u)
  have undo: "u\<lparr>inflight := inflight s\<rparr> = rerender E r"
    by (simp add: u r_def)
  have "handle E (StatusReply (length (inflight s)) (Inr d)) u =
      pollStatus_resume E i (Inr d) (u\<lparr>inflight := inflight s\<rparr>)"
    by (simp add: fl)
  then have "handle E (StatusReply (length (inflight s)) (Inr d)) u =
      pollStatus_resume E i (Inr d) (rerender E r)"
    by (simp only: undo)
  then show ?thesis
    by (simp only: poll_def step_def [of E "StatusReply (length (inflight s)) (Inr d)"] u_def [symmetric] r_def)
qed

section \<open>The claims\<close>

subsection \<open>Validation before anything is sent\<close>

text \<open>
  C4. \<^verbatim>\<open>startEditing\<close> with no video file, or with a prompt that is empty after
  trimming, is rejected at once: the only effect is one alert box, so no upload request
  and no start-processing request is sent, no timer is made, no project identifier is
  stored and no call is left waiting for an answer: the rejected call, which would have
  been the next in the list of calls, has no upload answer and no start-processing answer
  to handle. With a file and a prompt that is not blank the request sent is the upload.
\<close>

theorem startEditing_validates:
  "(videoFile s = None \<longrightarrow>
      startEditing s = s\<lparr>alerts := alerts s @ [''Please upload a video first'']\<rparr>) \<and>
   (videoFile s \<noteq> None \<and> trim (prompt s) = [] \<longrightarrow>
      startEditing s =
        s\<lparr>alerts := alerts s @ [''Please enter a prompt describing what you want'']\<rparr>) \<and>
   (videoFile s = None \<or> trim (prompt s) = [] \<longrightarrow>
      requests (startEditing s) = requests s \<and>
      intervals (startEditing s) = intervals s \<and>
      projectId (startEditing s) = projectId s \<and>
      status (startEditing s) = status s \<and>
      starts (startEditing s) = starts s \<and>
      handle E (UploadReply (length (starts s)) reply) (startEditing s) = startEditing s \<and>
      handle E (StartReply (length (starts s)) reply) (startEditing s) = startEditing s) \<and>
   (\<forall>f. videoFile s = Some f \<and> trim (prompt s) \<noteq> [] \<longrightarrow>
      length (requests s) < length (requests (startEditing s)) \<and>
      requests (startEditing s) ! length (requests s) =
        POST (API_BASE @ ''/api/upload/multiplatform'')
          (Some [(''video'', FormFile f), (''prompt'', FormText (prompt s)),
                 (''platforms'', FormText ''youtube,instagram,tiktok'')]) \<and>
      requests (startEditing s) =
        requests s @
          [POST (API_BASE @ ''/api/upload/multiplatform'')
             (Some [(''video'', FormFile f), (''prompt'', FormText (prompt s)),
                    (''platforms'', FormText ''youtube,instagram,tiktok'')])] \<and>
      starts (startEditing s) = starts s @ [Uploading])"
  by (auto simp: startEditing_def alert_def upload_form_def nth_append split: option.splits)

theorem startEditing_validates_witness:
  "videoFile App = None \<and>
   startEditing App = App\<lparr>alerts := [''Please upload a video first'']\<rparr> \<and>
   trim ('' '' @ [CHR 0x09, CHR 0xC2, CHR 0xA0]) = [] \<and>
   requests (startEditing (sample_ready\<lparr>prompt := '' '' @ [CHR 0x09, CHR 0xC2, CHR 0xA0]\<rparr>)) = [] \<and>
   alerts (startEditing (sample_ready\<lparr>prompt := '' '' @ [CHR 0x09, CHR 0xC2, CHR 0xA0]\<rparr>)) =
     [''Please enter a prompt describing what you want''] \<and>
   trim ''make it exciting'' \<noteq> [] \<and>
   requests (startEditing sample_ready) ! 0 =
     POST ''http://localhost:8000/api/upload/multiplatform''
       (Some [(''video'', FormFile sample_file), (''prompt'', FormText ''make it exciting''),
              (''platforms'', FormText ''youtube,instagram,tiktok'')])"
  using startEditing_validates [of App]
    startEditing_validates [of "sample_ready\<lparr>prompt := '' '' @ [CHR 0x09, CHR 0xC2, CHR 0xA0]\<rparr>"]
    startEditing_validates [of sample_ready]
  by (simp add: sample_ready_eq App_def API_BASE_def trim_def ws1_def ws2_def ws3_def)

subsection \<open>The progress stored is the progress reported\<close>

text \<open>
  C2, as the code has it. Over a row of polls of a running timer (one made by the
  component, so that its project identifier prints), each answered before the next is
  sent and none reporting \<^verbatim>\<open>completed\<close> or \<^verbatim>\<open>failed\<close>, the progress stored after each
  poll is the \<^verbatim>\<open>progress_percentage\<close> of that reply, or 0 when it is absent or falsy;
  nothing compares it with the value stored before. When the replies report the numbers
  \<open>ns\<close> the stored values are exactly \<open>ns\<close>, so they never decrease if the reported
  numbers never do.
\<close>

theorem progress_follows_reports:
  assumes "i < length (intervals s)" and "ivl_active (intervals s ! i)"
    and "printable E (ivl_proj (intervals s ! i))"
    and "\<forall>d \<in> set ds. \<exists>st. getprop d ''status'' = Inr st \<and> st \<noteq> JStr ''completed'' \<and> st \<noteq> JStr ''failed''"
  shows "progress_seen E i ds s =
      map (\<lambda>d. if truthy (field d ''progress_percentage'') then field d ''progress_percentage'' else JNum 0) ds \<and>
    (\<forall>ns. map (\<lambda>d. field d ''progress_percentage'') ds = map JNum ns \<longrightarrow>
       progress_seen E i ds s = map JNum ns) \<and>
    (\<forall>ns. map (\<lambda>d. field d ''progress_percentage'') ds = map JNum ns \<and> sorted ns \<longrightarrow>
       (\<exists>ms. progress_seen E i ds s = map JNum ms \<and> sorted ms))"
proof -
  have main: "progress_seen E i ds s =
      map (\<lambda>d. if truthy (field d ''progress_percentage'') then field d ''progress_percentage'' else JNum 0) ds"
    using assms
  proof (induction ds arbitrary: s)
    case Nil
    show ?case by simp
  next
    case (Cons d ds)
    from Cons.prems(4) obtain st where st: "getprop d ''status'' = Inr st"
      "st \<noteq> JStr ''completed''" "st \<noteq> JStr ''failed''" by auto
    from Cons.prems(3) obtain t where t: "ToString E (ivl_proj (intervals s ! i)) = Inr t"
      by (auto simp: printable_iff)
    have eq: "poll E i d s =
        rerender E (pollStatus_resume E i (Inr d) (rerender E (send (GET (status_url t)) s)))"
      using Cons.prems(1,2) t by (rule poll_eq)
    have p: "progress (poll E i d s) = js_or (field d ''progress_percentage'') (JNum 0)"
      unfolding eq using st(1) by (simp add: resume_progress)
    have iv: "intervals (poll E i d s) = intervals s"
      unfolding eq using st by (simp add: resume_running_intervals)
    have "progress_seen E i ds (poll E i d s) =
        map (\<lambda>d. if truthy (field d ''progress_percentage'') then field d ''progress_percentage'' else JNum 0) ds"
      using Cons.prems by (intro Cons.IH) (simp_all add: iv)
    then show ?case using p by (simp add: js_or_def)
  qed
  have nums: "progress_seen E i ds s = map JNum ns"
    if "map (\<lambda>d. field d ''progress_percentage'') ds = map JNum ns" for ns
  proof -
    have "map (\<lambda>d. if truthy (field d ''progress_percentage'') then field d ''progress_percentage'' else JNum 0) ds =
        map (\<lambda>v. if truthy v then v else JNum 0) (map (\<lambda>d. field d ''progress_percentage'') ds)"
      by (simp add: comp_def)
    also have "\<dots> = map (\<lambda>v. if truthy v then v else JNum 0) (map JNum ns)" using that by simp
    also have "\<dots> = map JNum ns" by (induction ns) auto
    finally show ?thesis using main by simp
  qed
  show ?thesis using main nums by blast
qed

theorem progress_follows_reports_witness:
  "ivl_active (intervals sample_job ! 0) \<and>
   printable sample_engine (ivl_proj (intervals sample_job ! 0)) \<and>
   progress_seen sample_engine 0
       [report ''analyzing'' 10, report ''processing'' 0, report ''processing'' 60] sample_job =
     [JNum 10, JNum 0, JNum 60]"
proof -
  let ?ds = "[report ''analyzing'' 10, report ''processing'' 0, report ''processing'' 60]"
  have a: "0 < length (intervals sample_job)" and b: "ivl_active (intervals sample_job ! 0)"
    and p: "printable sample_engine (ivl_proj (intervals sample_job ! 0))"
    by (simp_all add: sample_job_eq printable_def)
  have c: "\<forall>d \<in> set ?ds. \<exists>st. getprop d ''status'' = Inr st \<and> st \<noteq> JStr ''completed'' \<and> st \<noteq> JStr ''failed''"
    by (simp add: report_def)
  have d: "map (\<lambda>d. field d ''progress_percentage'') ?ds = map JNum [10, 0, 60]"
    by (simp add: report_def field_def)
  from progress_follows_reports [OF a b p c] d b p show ?thesis by simp
qed

text \<open>
  C2 as stated fails: the client stores what the reply reports. Two polls of the running
  sample Job, both reporting \<^verbatim>\<open>processing\<close>, the first with 50 and the second with 30:
  the progress stored goes from 50 down to 30.
\<close>

theorem progress_decreases_counterexample:
  "progress_seen sample_engine 0 [report ''processing'' 50, report ''processing'' 30] sample_job =
     [JNum 50, JNum 30] \<and>
   status (poll sample_engine 0 (report ''processing'' 50) sample_job) = JStr ''processing'' \<and>
   status (poll sample_engine 0 (report ''processing'' 30)
     (poll sample_engine 0 (report ''processing'' 50) sample_job)) = JStr ''processing''"
  by (simp add: poll_def sample_job_eq sample_engine_def report_def run_defs)

subsection \<open>Starting twice\<close>

text \<open>
  C8, on the Job Orchestrator as the spec describes it. A second start-processing on a
  Project changes nothing: the state after two calls is the state after one, with the
  same executions begun. On a Project whose Job is non-terminal the call itself is a
  no-op, so the Job, its progress and its artifacts are as they were and no execution is
  added; on a Project that has no Job, two calls begin exactly one execution.
\<close>

theorem start_processing_idempotent:
  "start_processing p (start_processing p s) = start_processing p s \<and>
   (\<forall>j. jobs s p = Some j \<and> \<not> terminal (job_status j) \<longrightarrow>
      start_processing p s = s \<and> jobs (start_processing p (start_processing p s)) p = Some j) \<and>
   count_list (executions (start_processing p (start_processing p s))) p =
     count_list (executions (start_processing p s)) p \<and>
   (jobs s p = None \<longrightarrow>
      count_list (executions (start_processing p (start_processing p s))) p =
        Suc (count_list (executions s) p))"
  by (auto simp: start_processing_def new_job_def terminal_def split: option.splits)

theorem start_processing_idempotent_witness:
  "start_processing ''p1''
     \<lparr>jobs = [''p1'' \<mapsto> \<lparr>job_status = Processing, job_progress = 40,
                          job_artifacts = [(''youtube'', ''out/p1_youtube.mp4'')]\<rparr>],
      executions = [''p1'']\<rparr> =
     \<lparr>jobs = [''p1'' \<mapsto> \<lparr>job_status = Processing, job_progress = 40,
                          job_artifacts = [(''youtube'', ''out/p1_youtube.mp4'')]\<rparr>],
      executions = [''p1'']\<rparr> \<and>
   executions (start_processing ''p1'' (start_processing ''p1'' \<lparr>jobs = Map.empty, executions = []\<rparr>)) =
     [''p1'']"
  using start_processing_idempotent [of "''p1''"
      "\<lparr>jobs = [''p1'' \<mapsto> \<lparr>job_status = Processing, job_progress = 40,
                          job_artifacts = [(''youtube'', ''out/p1_youtube.mp4'')]\<rparr>],
        executions = [''p1'']\<rparr>"]
    start_processing_idempotent [of "''p1''" "\<lparr>jobs = Map.empty, executions = []\<rparr>"]
  by (simp add: start_processing_def new_job_def terminal_def)

subsection \<open>What is recorded on completion\<close>

lemma resume_outputs:
  assumes "getprop data ''status'' = Inr (JStr ''completed'')" "summary_prints E data"
  shows "outputs (pollStatus_resume E i (Inr data) s) =
     [(''youtube'', field data ''output_video''), (''instagram'', field data ''output_video''),
      (''tiktok'', field data ''output_video''), (''master'', field data ''output_video'')]"
proof -
  from assms(2) obtain s2 where s2: "set_summary E data
      (s\<lparr>status := JStr ''completed'',
         progress := js_or (field data ''progress_percentage'') (JNum 0)\<rparr>) = Inr s2"
    unfolding summary_prints_iff [where s = "s\<lparr>status := JStr ''completed'',
         progress := js_or (field data ''progress_percentage'') (JNum 0)\<rparr>"]
    by blast
  with assms(1) show ?thesis
    by (simp add: pollStatus_resume_def report_status_outputs)
qed

lemma handle_reply:
  "n < length (inflight s) \<Longrightarrow>
   handle E (StatusReply n reply) s =
     pollStatus_resume E (inflight s ! n) reply
       (s\<lparr>inflight := take n (inflight s) @ drop (Suc n) (inflight s)\<rparr>)"
  by simp

text \<open>
  C1, as the code has it. When the answer to a status request reports \<^verbatim>\<open>completed\<close>,
  and its \<^verbatim>\<open>ai_analysis\<close>, if it has one, can be printed, the client records the
  answer's \<^verbatim>\<open>output_video\<close> as the output of \<^verbatim>\<open>youtube\<close>, \<^verbatim>\<open>instagram\<close> and \<^verbatim>\<open>tiktok\<close>,
  which are the platforms its upload asked for, and of \<^verbatim>\<open>master\<close>. So an output is there
  for every platform asked for exactly when the answer has a (truthy) \<^verbatim>\<open>output_video\<close>.
  The download buttons are then shown exactly when the component is still mounted,
  which it is if it was before and the new state renders: the new progress and status
  under \<^verbatim>\<open>progress > 0\<close>, and the project identifier in the preview.
\<close>

theorem completed_records_outputs:
  assumes "n < length (inflight s)"
    and "getprop data ''status'' = Inr (JStr ''completed'')"
    and "summary_prints E data"
  shows "status (step E (StatusReply n (Inr data)) s) = JStr ''completed'' \<and>
    map_of (upload_form f q) ''platforms'' =
      Some (FormText (join '','' [''youtube'', ''instagram'', ''tiktok''])) \<and>
    (\<forall>p \<in> set [''youtube'', ''instagram'', ''tiktok'', ''master''].
       map_of (outputs (step E (StatusReply n (Inr data)) s)) p = Some (field data ''output_video'')) \<and>
    ((\<forall>p \<in> set [''youtube'', ''instagram'', ''tiktok''].
        \<exists>v. map_of (outputs (step E (StatusReply n (Inr data)) s)) p = Some v \<and> truthy v)
      \<longleftrightarrow> truthy (field data ''output_video'')) \<and>
    (downloads_shown (step E (StatusReply n (Inr data)) s) \<longleftrightarrow>
       mounted (step E (StatusReply n (Inr data)) s) \<and> truthy (field data ''output_video'')) \<and>
    (mounted (step E (StatusReply n (Inr data)) s) \<longleftrightarrow>
       mounted s \<and>
       progress_renders E (js_or (field data ''progress_percentage'') (JNum 0)) (JStr ''completed'') \<and>
       (truthy (field data ''output_video'') \<longrightarrow> printable E (projectId s)))"
proof -
  let ?r = "s\<lparr>inflight := take n (inflight s) @ drop (Suc n) (inflight s)\<rparr>"
  let ?h = "pollStatus_resume E (inflight s ! n) (Inr data) ?r"
  have step: "step E (StatusReply n (Inr data)) s = rerender E ?h"
    using assms(1) by (simp add: step_def)
  have st: "status ?h = JStr ''completed''" using assms(2) by (rule resume_status)
  have out: "outputs ?h =
     [(''youtube'', field data ''output_video''), (''instagram'', field data ''output_video''),
      (''tiktok'', field data ''output_video''), (''master'', field data ''output_video'')]"
    using assms(2,3) by (rule resume_outputs)
  have pr: "progress ?h = js_or (field data ''progress_percentage'') (JNum 0)"
    using assms(2) by (rule resume_progress)
  have master: "field (JObj (outputs ?h)) ''master'' = field data ''output_video''"
    by (simp add: out field_def)
  have m: "mounted (rerender E ?h) \<longleftrightarrow>
       mounted s \<and>
       progress_renders E (js_or (field data ''progress_percentage'') (JNum 0)) (JStr ''completed'') \<and>
       (truthy (field data ''output_video'') \<longrightarrow> printable E (projectId s))"
    by (simp add: mounted_rerender render_ok_def st pr master outputs_render_def printable_def
        split: sum.splits)
  show ?thesis
    unfolding step using m
    by (simp add: st out upload_form_def downloads_shown_def field_def)
qed

theorem completed_records_outputs_witness:
  "getprop report_done ''status'' = Inr (JStr ''completed'') \<and>
   summary_prints sample_engine report_done \<and>
   inflight (step sample_engine (TimerFires 0) sample_job) = [0] \<and>
   map_of (outputs (step sample_engine (StatusReply 0 (Inr report_done))
       (step sample_engine (TimerFires 0) sample_job))) ''instagram'' =
     Some (JStr ''outputs/p1.mp4'') \<and>
   downloads_shown (step sample_engine (StatusReply 0 (Inr report_done))
       (step sample_engine (TimerFires 0) sample_job))"
proof -
  let ?s = "step sample_engine (TimerFires 0) sample_job"
  have a: "getprop report_done ''status'' = Inr (JStr ''completed'')"
    by (simp add: report_done_def)
  have b: "field report_done ''output_video'' = JStr ''outputs/p1.mp4''"
    "field report_done ''progress_percentage'' = JNum 100"
    by (simp_all add: report_done_def field_def)
  have c: "summary_prints sample_engine report_done"
    by (simp add: summary_prints_def report_done_def field_def)
  have d: "inflight ?s = [0]" and e: "mounted ?s" and f: "projectId ?s = JStr ''p1''"
    by (simp_all add: sample_job_eq sample_engine_def run_defs)
  have n: "0 < length (inflight ?s)" using d by simp
  have g: "progress_renders sample_engine (js_or (JNum 100) (JNum 0)) (JStr ''completed'')"
    by (simp add: progress_renders_def js_or_def NumberToString_def)
  have h: "printable sample_engine (JStr ''p1'')" by (simp add: printable_def)
  from completed_records_outputs [OF n a c, of sample_file "''x''"] a b c d e f g h
  show ?thesis by simp
qed

text \<open>
  C1 as stated fails, in two ways. A reply can report \<^verbatim>\<open>completed\<close> without any
  \<^verbatim>\<open>output_video\<close>: the client then stores the status \<^verbatim>\<open>completed\<close> with every output
  \<^verbatim>\<open>undefined\<close>, and shows no download button. And a reply that reports \<^verbatim>\<open>completed\<close>
  with an \<^verbatim>\<open>output_video\<close>, but whose \<^verbatim>\<open>ai_analysis\<close> has a \<^verbatim>\<open>mode\<close> that cannot be
  printed, throws in the callback before the outputs are set: they stay \<^verbatim>\<open>null\<close>.
\<close>

theorem completed_without_output_counterexample:
  "status (step sample_engine (StatusReply 0 (Inr (report ''completed'' 100)))
      (step sample_engine (TimerFires 0) sample_job)) = JStr ''completed'' \<and>
   map_of (outputs (step sample_engine (StatusReply 0 (Inr (report ''completed'' 100)))
      (step sample_engine (TimerFires 0) sample_job))) ''youtube'' = Some JUndefined \<and>
   \<not> downloads_shown (step sample_engine (StatusReply 0 (Inr (report ''completed'' 100)))
      (step sample_engine (TimerFires 0) sample_job)) \<and>
   status (step sample_engine
      (StatusReply 0 (Inr (JObj [(''status'', JStr ''completed''), (''progress_percentage'', JNum 100),
         (''output_video'', JStr ''outputs/p1.mp4''),
         (''ai_analysis'', JObj [(''mode'', unprintable)])])))
      (step sample_engine (TimerFires 0) sample_job)) = JStr ''completed'' \<and>
   map_of (outputs (step sample_engine
      (StatusReply 0 (Inr (JObj [(''status'', JStr ''completed''), (''progress_percentage'', JNum 100),
         (''output_video'', JStr ''outputs/p1.mp4''),
         (''ai_analysis'', JObj [(''mode'', unprintable)])])))
      (step sample_engine (TimerFires 0) sample_job))) ''youtube'' = Some JNull"
  by (simp add: sample_job_eq sample_engine_def report_def unprintable_def run_defs)

subsection \<open>After a terminal status\<close>






subsection \<open>How a failure reaches the user\<close>

lemma resume_cases:
  "(\<exists>e. (reply = Inl e \<or> (\<exists>data. reply = Inr data \<and> getprop data ''status'' = Inl e)) \<and>
      pollStatus_resume E i reply s = console_error ''Status poll error:'' e s) \<or>
   (\<exists>data st e. reply = Inr data \<and> getprop data ''status'' = Inr st \<and> \<not> summary_prints E data \<and>
      pollStatus_resume E i reply s =
        console_error ''Status poll error:'' e
          (s\<lparr>status := st, progress := js_or (field data ''progress_percentage'') (JNum 0)\<rparr>)) \<or>
   (\<exists>data st s2. reply = Inr data \<and> getprop data ''status'' = Inr st \<and> summary_prints E data \<and>
      set_summary E data
        (s\<lparr>status := st, progress := js_or (field data ''progress_percentage'') (JNum 0)\<rparr>) = Inr s2 \<and>
      pollStatus_resume E i reply s = report_status i st data s2)"
proof (cases reply)
  case (Inl e)
  then show ?thesis by (auto simp: pollStatus_resume_def)
next
  case (Inr data)
  show ?thesis
  proof (cases "getprop data ''status''")
    case (Inl e)
    with Inr show ?thesis by (auto simp: pollStatus_resume_def)
  next
    case st: (Inr st)
    let ?s1 = "s\<lparr>status := st, progress := js_or (field data ''progress_percentage'') (JNum 0)\<rparr>"
    show ?thesis
    proof (cases "set_summary E data ?s1")
      case (Inl e)
      then have "\<not> summary_prints E data"
        unfolding summary_prints_iff [where s = ?s1] by simp
      with Inr st Inl show ?thesis by (auto simp: pollStatus_resume_def)
    next
      case s2: (Inr s2)
      then have "summary_prints E data"
        unfolding summary_prints_iff [where s = ?s1] by blast
      with Inr st s2 show ?thesis by (auto simp: pollStatus_resume_def)
    qed
  qed
qed

lemma failed_reply_iff:
  "failed_reply E reply \<longleftrightarrow>
     (\<exists>data. reply = Inr data \<and> getprop data ''status'' = Inr (JStr ''failed'') \<and> summary_prints E data)"
  by (cases reply) (simp_all add: failed_reply_def)

lemma report_status_logs:
  "\<exists>added. terminalLogs (report_status i st data s) = terminalLogs s @ added \<and>
     (''[AI] Processing failed '' @ [CHR 0xE2, CHR 0x9C, CHR 0x97] \<in> set added \<longrightarrow> st = JStr ''failed'')"
  by (auto simp: report_status_def Let_def status_logs_def)

lemma resume_alerts:
  "alerts (pollStatus_resume E i reply s) =
     (if failed_reply E reply then alerts s @ [''Processing failed. Please try again.''] else alerts s)"
  using resume_cases [where E = E and i = i and reply = reply and s = s]
  by (auto simp: failed_reply_iff report_status_alerts set_summary_keeps)

lemma resume_logs:
  "\<exists>added. terminalLogs (pollStatus_resume E i reply s) = terminalLogs s @ added \<and>
     (''[AI] Processing failed '' @ [CHR 0xE2, CHR 0x9C, CHR 0x97] \<in> set added \<longrightarrow> failed_reply E reply)"
  using resume_cases [where E = E and i = i and reply = reply and s = s]
proof (elim disjE exE conjE)
  fix data st s2
  assume a: "reply = Inr data" "getprop data ''status'' = Inr st" "summary_prints E data"
    "set_summary E data (s\<lparr>status := st, progress := js_or (field data ''progress_percentage'') (JNum 0)\<rparr>) = Inr s2"
    "pollStatus_resume E i reply s = report_status i st data s2"
  from report_status_logs [of i st data s2] obtain added where
    "terminalLogs (report_status i st data s2) = terminalLogs s2 @ added"
    "''[AI] Processing failed '' @ [CHR 0xE2, CHR 0x9C, CHR 0x97] \<in> set added \<longrightarrow> st = JStr ''failed''"
    by blast
  with a show ?thesis by (auto simp: failed_reply_iff set_summary_keeps [OF a(4)])
qed auto

lemma resume_failed:
  assumes "getprop data ''status'' = Inr (JStr ''failed'')" "summary_prints E data"
  shows "terminalLogs (pollStatus_resume E i (Inr data) s) =
     terminalLogs s @ [''[AI] Processing failed '' @ [CHR 0xE2, CHR 0x9C, CHR 0x97]]"
  using resume_cases [where E = E and i = i and reply = "Inr data" and s = s] assms
  by (auto simp: report_status_def Let_def status_logs_def set_summary_keeps)

lemma resume_status_cases:
  "status (pollStatus_resume E i reply s) = status s \<or>
   (\<exists>data. reply = Inr data \<and> getprop data ''status'' = Inr (status (pollStatus_resume E i reply s)))"
  using resume_cases [where E = E and i = i and reply = reply and s = s] by (auto simp: set_summary_keeps)

lemma resume_intervals_cases:
  "intervals (pollStatus_resume E i reply s) = intervals s \<or>
   (\<exists>data st. reply = Inr data \<and> getprop data ''status'' = Inr st \<and>
      (st = JStr ''completed'' \<or> st = JStr ''failed'') \<and>
      intervals (pollStatus_resume E i reply s) = intervals (clearInterval i s))"
  using resume_cases [where E = E and i = i and reply = reply and s = s]
  by (auto simp: set_summary_keeps report_status_intervals clearInterval_def)

lemma logs_grow:
  "\<exists>added. terminalLogs (handle E ev s) = terminalLogs s @ added \<and>
     (''[AI] Processing failed '' @ [CHR 0xE2, CHR 0x9C, CHR 0x97] \<in> set added \<longrightarrow>
        (\<exists>n reply. ev = StatusReply n reply \<and> n < length (inflight s) \<and> failed_reply E reply))"
proof (cases ev)
  case (ChooseFile f u)
  then show ?thesis by (auto simp: handleVideoUpload_def split: option.splits)
next
  case (TypePrompt p)
  then show ?thesis by auto
next
  case ClickStart
  then show ?thesis by (auto simp: startEditing_def alert_def split: option.splits)
next
  case (UploadReply k r)
  then show ?thesis by (auto simp: startEditing_uploaded_def Let_def split: sum.splits)
next
  case (StartReply k r)
  then show ?thesis by (auto simp: startEditing_started_def split: sum.splits stage.splits)
next
  case (ClickDownload p)
  then show ?thesis by (auto simp: downloadVideo_def split: sum.splits)
next
  case (TimerFires i)
  then show ?thesis by auto
next
  case (StatusReply n r)
  show ?thesis
  proof (cases "n < length (inflight s)")
    case True
    from resume_logs [of E "inflight s ! n" r "s\<lparr>inflight := take n (inflight s) @ drop (Suc n) (inflight s)\<rparr>"]
    show ?thesis using StatusReply True by auto
  next
    case False
    with StatusReply show ?thesis by auto
  qed
qed

lemma alerts_change:
  "alerts (handle E ev s) = alerts s \<or> from_start ev \<or>
   (\<exists>n reply. ev = StatusReply n reply \<and> n < length (inflight s) \<and> failed_reply E reply)"
proof (cases ev)
  case (StatusReply n r)
  then show ?thesis by (auto simp: resume_alerts)
qed auto

lemma status_failed_change:
  assumes "status (handle E ev s) = JStr ''failed''" "status s \<noteq> JStr ''failed''"
  shows "\<exists>n data. ev = StatusReply n (Inr data) \<and> n < length (inflight s) \<and>
    getprop data ''status'' = Inr (JStr ''failed'')"
proof (cases ev)
  case (StartReply k r)
  with assms show ?thesis
    by (auto simp: startEditing_started_def start_failed_def split: sum.splits stage.splits if_splits)
next
  case (StatusReply n r)
  show ?thesis
  proof (cases "n < length (inflight s)")
    case True
    from resume_status_cases [of E "inflight s ! n" r "s\<lparr>inflight := take n (inflight s) @ drop (Suc n) (inflight s)\<rparr>"]
    show ?thesis using StatusReply True assms by auto
  next
    case False
    with StatusReply assms show ?thesis by auto
  qed
next
  case ClickStart
  with assms show ?thesis by (auto split: if_splits)
next
  case (ChooseFile f u)
  with assms show ?thesis by (auto split: if_splits)
next
  case (TypePrompt p)
  with assms show ?thesis by (auto split: if_splits)
next
  case (UploadReply k r)
  with assms show ?thesis by (auto split: if_splits)
next
  case (ClickDownload p)
  with assms show ?thesis by (auto split: if_splits)
next
  case (TimerFires i)
  with assms show ?thesis by auto
qed

lemma timer_cleared_change:
  assumes "i < length (intervals s)" "ivl_active (intervals s ! i)"
    "\<not> ivl_active (intervals (handle E ev s) ! i)"
  shows "\<exists>n data st. ev = StatusReply n (Inr data) \<and> n < length (inflight s) \<and> inflight s ! n = i \<and>
    getprop data ''status'' = Inr st \<and> (st = JStr ''completed'' \<or> st = JStr ''failed'')"
proof (cases ev)
  case (StartReply k r)
  with assms show ?thesis
    by (auto simp: startEditing_started_def nth_append split: sum.splits stage.splits if_splits)
next
  case (StatusReply n r)
  show ?thesis
  proof (cases "n < length (inflight s)")
    case True
    from resume_intervals_cases [of E "inflight s ! n" r "s\<lparr>inflight := take n (inflight s) @ drop (Suc n) (inflight s)\<rparr>"]
    show ?thesis using StatusReply True assms
      by (auto simp: clearInterval_def nth_list_update split: if_splits)
  next
    case False
    with StatusReply assms show ?thesis by auto
  qed
qed (use assms in \<open>auto split: if_splits\<close>)

text \<open>
  C5, as the code has it. Everything the client learns from the server is the answer to
  a request it sent: there is no other event. When it handles an answer to a status
  request whose status is \<^verbatim>\<open>failed\<close>, and whose \<^verbatim>\<open>ai_analysis\<close>, if it has one, can be
  printed, it stores the status, clears that timer, adds the log line and shows the
  alert. Only an answer to a status request does any of this for a Job that is polled:
  a timer is cleared only by an answer to one of its own requests that reports
  \<^verbatim>\<open>completed\<close> or \<^verbatim>\<open>failed\<close>, the stored status becomes \<^verbatim>\<open>failed\<close> only by such an
  answer, and the log line is added only then. A status request that axios rejects is
  written to the console and changes nothing else. An alert is shown by nothing else
  but a call of \<^verbatim>\<open>startEditing\<close>: its own \<^verbatim>\<open>catch\<close> shows the same alert when its upload
  or its start-processing request is rejected, and leaves every timer as it is.
\<close>

theorem failure_only_by_status_reply:
  "(n < length (inflight s) \<and> inflight s ! n < length (intervals s) \<and>
    getprop data ''status'' = Inr (JStr ''failed'') \<and> summary_prints E data \<longrightarrow>
      status (step E (StatusReply n (Inr data)) s) = JStr ''failed'' \<and>
      \<not> ivl_active (intervals (step E (StatusReply n (Inr data)) s) ! (inflight s ! n)) \<and>
      alerts (step E (StatusReply n (Inr data)) s) = alerts s @ [''Processing failed. Please try again.''] \<and>
      terminalLogs (step E (StatusReply n (Inr data)) s) =
        terminalLogs s @ [''[AI] Processing failed '' @ [CHR 0xE2, CHR 0x9C, CHR 0x97]]) \<and>
   (i < length (intervals s) \<and> ivl_active (intervals s ! i) \<and>
    \<not> ivl_active (intervals (step E ev s) ! i) \<longrightarrow>
      (\<exists>k body st. ev = StatusReply k (Inr body) \<and> k < length (inflight s) \<and> inflight s ! k = i \<and>
         getprop body ''status'' = Inr st \<and> (st = JStr ''completed'' \<or> st = JStr ''failed''))) \<and>
   (status (step E ev s) = JStr ''failed'' \<and> status s \<noteq> JStr ''failed'' \<longrightarrow>
      (\<exists>k body. ev = StatusReply k (Inr body) \<and> k < length (inflight s) \<and>
         getprop body ''status'' = Inr (JStr ''failed''))) \<and>
   (\<exists>added. terminalLogs (step E ev s) = terminalLogs s @ added \<and>
      (''[AI] Processing failed '' @ [CHR 0xE2, CHR 0x9C, CHR 0x97] \<in> set added \<longrightarrow>
         (\<exists>k body. ev = StatusReply k (Inr body) \<and> k < length (inflight s) \<and>
            getprop body ''status'' = Inr (JStr ''failed'')))) \<and>
   (alerts (step E ev s) \<noteq> alerts s \<and> \<not> from_start ev \<longrightarrow>
      (\<exists>k body. ev = StatusReply k (Inr body) \<and> k < length (inflight s) \<and>
         getprop body ''status'' = Inr (JStr ''failed''))) \<and>
   (n < length (inflight s) \<longrightarrow>
      console (step E (StatusReply n (Inl e)) s) = console s @ [(''Status poll error:'', e)] \<and>
      alerts (step E (StatusReply n (Inl e)) s) = alerts s \<and>
      status (step E (StatusReply n (Inl e)) s) = status s \<and>
      terminalLogs (step E (StatusReply n (Inl e)) s) = terminalLogs s \<and>
      intervals (step E (StatusReply n (Inl e)) s) = intervals s) \<and>
   (j < length (starts s) \<and> starts s ! j = Uploading \<longrightarrow>
      alerts (step E (UploadReply j (Inl e)) s) = alerts s @ [''Processing failed. Please try again.''] \<and>
      intervals (step E (UploadReply j (Inl e)) s) = intervals s) \<and>
   (j < length (starts s) \<and> starts s ! j = Starting p \<longrightarrow>
      alerts (step E (StartReply j (Inl e)) s) = alerts s @ [''Processing failed. Please try again.''] \<and>
      intervals (step E (StartReply j (Inl e)) s) = intervals s)"
proof (intro conjI impI)
  assume a: "n < length (inflight s) \<and> inflight s ! n < length (intervals s) \<and>
    getprop data ''status'' = Inr (JStr ''failed'') \<and> summary_prints E data"
  define r where "r = s\<lparr>inflight := take n (inflight s) @ drop (Suc n) (inflight s)\<rparr>"
  have eq: "step E (StatusReply n (Inr data)) s = rerender E (pollStatus_resume E (inflight s ! n) (Inr data) r)"
    using a by (simp add: step_def r_def)
  show "status (step E (StatusReply n (Inr data)) s) = JStr ''failed''"
    unfolding eq using a by (simp add: resume_status)
  have "intervals (pollStatus_resume E (inflight s ! n) (Inr data) r) = intervals (clearInterval (inflight s ! n) r)"
    using a by (intro resume_terminal_intervals) auto
  then show "\<not> ivl_active (intervals (step E (StatusReply n (Inr data)) s) ! (inflight s ! n))"
    unfolding eq using a by (simp add: clearInterval_def r_def)
  have f: "failed_reply E (Inr data)" using a by (simp add: failed_reply_iff)
  show "alerts (step E (StatusReply n (Inr data)) s) = alerts s @ [''Processing failed. Please try again.'']"
    unfolding eq using f by (simp add: resume_alerts r_def)
  show "terminalLogs (step E (StatusReply n (Inr data)) s) =
        terminalLogs s @ [''[AI] Processing failed '' @ [CHR 0xE2, CHR 0x9C, CHR 0x97]]"
    unfolding eq using a by (simp add: resume_failed r_def)
next
  assume "i < length (intervals s) \<and> ivl_active (intervals s ! i) \<and>
    \<not> ivl_active (intervals (step E ev s) ! i)"
  then show "\<exists>k body st. ev = StatusReply k (Inr body) \<and> k < length (inflight s) \<and> inflight s ! k = i \<and>
         getprop body ''status'' = Inr st \<and> (st = JStr ''completed'' \<or> st = JStr ''failed'')"
    using timer_cleared_change [of i s E ev] by (simp add: step_def)
next
  assume "status (step E ev s) = JStr ''failed'' \<and> status s \<noteq> JStr ''failed''"
  then show "\<exists>k body. ev = StatusReply k (Inr body) \<and> k < length (inflight s) \<and>
         getprop body ''status'' = Inr (JStr ''failed'')"
    using status_failed_change [of E ev s] by (simp add: step_def)
next
  from logs_grow [of E ev s]
  show "\<exists>added. terminalLogs (step E ev s) = terminalLogs s @ added \<and>
      (''[AI] Processing failed '' @ [CHR 0xE2, CHR 0x9C, CHR 0x97] \<in> set added \<longrightarrow>
         (\<exists>k body. ev = StatusReply k (Inr body) \<and> k < length (inflight s) \<and>
            getprop body ''status'' = Inr (JStr ''failed'')))"
    by (auto simp: step_def failed_reply_iff)
next
  assume "alerts (step E ev s) \<noteq> alerts s \<and> \<not> from_start ev"
  then show "\<exists>k body. ev = StatusReply k (Inr body) \<and> k < length (inflight s) \<and>
         getprop body ''status'' = Inr (JStr ''failed'')"
    using alerts_change [of E ev s] by (auto simp: step_def failed_reply_iff)
next
  assume n: "n < length (inflight s)"
  then have eq: "step E (StatusReply n (Inl e)) s =
      rerender E (console_error ''Status poll error:'' e
        (s\<lparr>inflight := take n (inflight s) @ drop (Suc n) (inflight s)\<rparr>))"
    by (simp add: step_def pollStatus_resume_def)
  show "console (step E (StatusReply n (Inl e)) s) = console s @ [(''Status poll error:'', e)]"
    and "alerts (step E (StatusReply n (Inl e)) s) = alerts s"
    and "status (step E (StatusReply n (Inl e)) s) = status s"
    and "terminalLogs (step E (StatusReply n (Inl e)) s) = terminalLogs s"
    and "intervals (step E (StatusReply n (Inl e)) s) = intervals s"
    unfolding eq by simp_all
next
  assume "j < length (starts s) \<and> starts s ! j = Uploading"
  then show "alerts (step E (UploadReply j (Inl e)) s) = alerts s @ [''Processing failed. Please try again.'']"
    and "intervals (step E (UploadReply j (Inl e)) s) = intervals s"
    by (simp_all add: step_def startEditing_uploaded_def)
next
  assume "j < length (starts s) \<and> starts s ! j = Starting p"
  then show "alerts (step E (StartReply j (Inl e)) s) = alerts s @ [''Processing failed. Please try again.'']"
    and "intervals (step E (StartReply j (Inl e)) s) = intervals s"
    by (simp_all add: step_def startEditing_started_def)
qed

theorem failure_only_by_status_reply_witness:
  "inflight (step sample_engine (TimerFires 0) sample_job) = [0] \<and>
   ivl_active (intervals (step sample_engine (TimerFires 0) sample_job) ! 0) \<and>
   status (step sample_engine (TimerFires 0) sample_job) = JStr ''processing'' \<and>
   summary_prints sample_engine (report ''failed'' 35) \<and>
   status (step sample_engine (StatusReply 0 (Inr (report ''failed'' 35)))
     (step sample_engine (TimerFires 0) sample_job)) = JStr ''failed'' \<and>
   \<not> ivl_active (intervals (step sample_engine (StatusReply 0 (Inr (report ''failed'' 35)))
     (step sample_engine (TimerFires 0) sample_job)) ! 0) \<and>
   alerts (step sample_engine (StatusReply 0 (Inr (report ''failed'' 35)))
     (step sample_engine (TimerFires 0) sample_job)) = [''Processing failed. Please try again.''] \<and>
   alerts (step sample_engine (StatusReply 0 (Inl (AxiosError ''Network Error'')))
     (step sample_engine (TimerFires 0) sample_job)) = [] \<and>
   intervals (step sample_engine (StatusReply 0 (Inl (AxiosError ''Network Error'')))
     (step sample_engine (TimerFires 0) sample_job)) = intervals sample_job \<and>
   starts (step sample_engine ClickStart sample_job) = [Finished, Uploading] \<and>
   alerts (step sample_engine (UploadReply 1 (Inl (AxiosError ''Network Error'')))
     (step sample_engine ClickStart sample_job)) = [''Processing failed. Please try again.''] \<and>
   intervals (step sample_engine (UploadReply 1 (Inl (AxiosError ''Network Error'')))
     (step sample_engine ClickStart sample_job)) = intervals sample_job \<and>
   starts (step sample_engine (UploadReply 1 (Inr (JObj [(''project_id'', JStr ''p2'')])))
     (step sample_engine ClickStart sample_job)) = [Finished, Starting (JStr ''p2'')] \<and>
   alerts (step sample_engine (StartReply 1 (Inl (AxiosError ''Network Error'')))
     (step sample_engine (UploadReply 1 (Inr (JObj [(''project_id'', JStr ''p2'')])))
       (step sample_engine ClickStart sample_job))) = [''Processing failed. Please try again.'']"
proof -
  define s where "s = step sample_engine (TimerFires 0) sample_job"
  define u where "u = step sample_engine ClickStart sample_job"
  define v where "v = step sample_engine (UploadReply 1 (Inr (JObj [(''project_id'', JStr ''p2'')]))) u"
  let ?e = "AxiosError ''Network Error''"
  let ?d = "report ''failed'' 35"
  have a: "inflight s = [0]" and b: "intervals s = intervals sample_job" and c: "alerts s = []"
    and on: "ivl_active (intervals s ! 0)" and st: "status s = JStr ''processing''"
    by (simp_all add: s_def sample_job_eq sample_engine_def run_defs)
  have ok: "summary_prints sample_engine ?d"
    by (simp add: summary_prints_def report_def field_def)
  have d: "0 < length (inflight s) \<and> inflight s ! 0 < length (intervals s) \<and>
      getprop ?d ''status'' = Inr (JStr ''failed'') \<and> summary_prints sample_engine ?d"
    using a b ok by (simp add: report_def sample_job_eq)
  have e: "0 < length (inflight s)" using a by simp
  have us: "starts u = [Finished, Uploading]" and ui: "intervals u = intervals sample_job"
    and ua: "alerts u = []"
    by (simp_all add: u_def sample_job_eq sample_file_def run_defs)
  have vs: "starts v = [Finished, Starting (JStr ''p2'')]" and va: "alerts v = []"
    by (simp_all add: v_def u_def sample_job_eq sample_file_def run_defs)
  have uj: "1 < length (starts u) \<and> starts u ! 1 = Uploading" using us by simp
  have vj: "1 < length (starts v) \<and> starts v ! 1 = Starting (JStr ''p2'')" using vs by simp
  note T = failure_only_by_status_reply [where E = sample_engine and n = 0 and s = s
      and data = ?d and e = ?e and i = 0 and ev = "StatusReply 0 (Inr ?d)"]
  note U = failure_only_by_status_reply [where E = sample_engine and s = u and j = 1 and e = ?e]
  note V = failure_only_by_status_reply [where E = sample_engine and s = v and j = 1 and e = ?e
      and p = "JStr ''p2''"]
  from T d have 1: "status (step sample_engine (StatusReply 0 (Inr ?d)) s) = JStr ''failed'' \<and>
      \<not> ivl_active (intervals (step sample_engine (StatusReply 0 (Inr ?d)) s) ! (inflight s ! 0)) \<and>
      alerts (step sample_engine (StatusReply 0 (Inr ?d)) s) =
        alerts s @ [''Processing failed. Please try again.'']"
    by blast
  from T e have 2: "alerts (step sample_engine (StatusReply 0 (Inl ?e)) s) = alerts s \<and>
      intervals (step sample_engine (StatusReply 0 (Inl ?e)) s) = intervals s"
    by blast
  from U uj have 3: "alerts (step sample_engine (UploadReply 1 (Inl ?e)) u) =
        alerts u @ [''Processing failed. Please try again.''] \<and>
      intervals (step sample_engine (UploadReply 1 (Inl ?e)) u) = intervals u"
    by blast
  from V vj have 4: "alerts (step sample_engine (StartReply 1 (Inl ?e)) v) =
        alerts v @ [''Processing failed. Please try again.'']"
    by blast
  from 1 2 3 4 a b c on st ok us ui ua vs va show ?thesis
    unfolding s_def u_def v_def by simp
qed

text \<open>
  C5 as stated fails, in two ways. An answer that reports \<^verbatim>\<open>failed\<close> but whose
  \<^verbatim>\<open>ai_analysis\<close> has a \<^verbatim>\<open>mode\<close> that cannot be printed throws in the callback after the
  status is stored: polling is not stopped and no failure is reported. And while the
  sample Job is polled, a second press of the start button whose upload is rejected
  shows the alert \<^verbatim>\<open>Processing failed. Please try again.\<close>, by an answer that is not a
  status read, with the Job's timer still running.
\<close>

theorem failure_report_counterexample:
  "status (run sample_engine [TimerFires 0,
       StatusReply 0 (Inr (JObj [(''status'', JStr ''failed''),
          (''ai_analysis'', JObj [(''mode'', unprintable)])]))] sample_job) = JStr ''failed'' \<and>
   ivl_active (intervals (run sample_engine [TimerFires 0,
       StatusReply 0 (Inr (JObj [(''status'', JStr ''failed''),
          (''ai_analysis'', JObj [(''mode'', unprintable)])]))] sample_job) ! 0) \<and>
   alerts (run sample_engine [TimerFires 0,
       StatusReply 0 (Inr (JObj [(''status'', JStr ''failed''),
          (''ai_analysis'', JObj [(''mode'', unprintable)])]))] sample_job) = [] \<and>
   alerts (run sample_engine [ClickStart, UploadReply 1 (Inl (AxiosError ''Network Error''))] sample_job) =
     [''Processing failed. Please try again.''] \<and>
   ivl_active (intervals
     (run sample_engine [ClickStart, UploadReply 1 (Inl (AxiosError ''Network Error''))] sample_job) ! 0) \<and>
   status (run sample_engine [ClickStart, UploadReply 1 (Inl (AxiosError ''Network Error''))] sample_job) =
     JStr ''processing''"
  by (simp add: sample_job_eq sample_engine_def unprintable_def run_defs)

subsection \<open>One project identifier from upload to polling\<close>

lemma click_ok:
  assumes "mounted s" "videoFile s = Some f" "trim (prompt s) \<noteq> []"
  shows "requests (step E ClickStart s) =
           requests s @ [POST (API_BASE @ ''/api/upload/multiplatform'') (Some (upload_form f (prompt s)))]"
    and "starts (step E ClickStart s) = starts s @ [Uploading]"
  using assms by (simp_all add: step_def startEditing_def)

lemma uploaded_ok:
  assumes "k < length (starts s)" "starts s ! k = Uploading"
    and "getprop body ''project_id'' = Inr projId" "ToString E projId = Inr t"
  shows "requests (step E (UploadReply k (Inr body)) s) = requests s @ [POST (process_url t) None]"
    and "projectId (step E (UploadReply k (Inr body)) s) = projId"
    and "starts (step E (UploadReply k (Inr body)) s) = (starts s)[k := Starting projId]"
  using assms by (simp_all add: step_def startEditing_uploaded_def Let_def)

lemma started_ok:
  assumes "k < length (starts s)" "starts s ! k = Starting projId"
  shows "intervals (step E (StartReply k (Inr body)) s) =
           intervals s @ [\<lparr>ivl_proj = projId, ivl_delay = 2000, ivl_active = True\<rparr>]"
    and "requests (step E (StartReply k (Inr body)) s) = requests s"
    and "status (step E (StartReply k (Inr body)) s) = JStr ''processing''"
  using assms by (simp_all add: step_def startEditing_started_def)

text \<open>Requests are only ever added.\<close>

lemma requests_handle: "\<exists>added. requests (handle E ev s) = requests s @ added"
proof (cases ev)
  case ClickStart
  then show ?thesis by (auto simp: startEditing_def split: option.splits)
next
  case (UploadReply k r)
  then show ?thesis by (auto simp: startEditing_uploaded_def Let_def split: sum.splits)
next
  case (StartReply k r)
  then show ?thesis by (auto split: stage.splits)
next
  case (TimerFires i)
  then show ?thesis by (auto simp: pollStatus_tick_def split: sum.splits)
qed auto

lemma requests_run: "\<exists>added. requests (run E evs s) = requests s @ added"
proof (induction evs arbitrary: s)
  case Nil
  show ?case by (simp add: run_Nil)
next
  case (Cons ev evs)
  obtain a where a: "requests (step E ev s) = requests s @ a"
    using requests_handle [of E ev s] by (auto simp: step_def)
  obtain b where b: "requests (run E evs (step E ev s)) = requests (step E ev s) @ b"
    using Cons.IH [of "step E ev s"] by blast
  show ?case using a b by (simp add: run_Cons)
qed

text \<open>
  C7. A call of \<^verbatim>\<open>startEditing\<close> that succeeds goes through three steps, between which
  anything else can happen (\<open>evs1\<close>, \<open>evs2\<close>, \<open>evs3\<close>: other calls, other timers, other
  answers). The press of the button sends the upload: the file, the prompt and the
  platform list \<^verbatim>\<open>youtube,instagram,tiktok\<close>. When the upload is answered with a body
  whose \<^verbatim>\<open>project_id\<close> can be read and printed, the call stores that identifier and
  sends the start-processing request for exactly it: among the requests sent, the upload
  comes first and the start-processing request after it. When that request is answered,
  the call makes a timer that keeps the identifier: whatever happens afterwards, every
  firing of that timer sends the status read of exactly that identifier, after the two
  requests of the call.
\<close>

theorem upload_flow_project_id:
  assumes "mounted s" and "videoFile s = Some f" and "trim (prompt s) \<noteq> []"
    and "getprop body ''project_id'' = Inr projId" and "ToString E projId = Inr text"
    and "list_all (\<lambda>ev. \<not> answers (length (starts s)) ev) evs1"
    and "list_all (\<lambda>ev. \<not> answers (length (starts s)) ev) evs2"
  shows "let k = length (starts s);
             s1 = step E ClickStart s;
             t = run E evs1 s1;
             t1 = step E (UploadReply k (Inr body)) t;
             u = run E evs2 t1;
             u1 = step E (StartReply k (Inr accepted)) u;
             v = run E evs3 u1;
             i = length (intervals u)
         in requests s1 =
              requests s @
                [POST (API_BASE @ ''/api/upload/multiplatform'')
                   (Some [(''video'', FormFile f), (''prompt'', FormText (prompt s)),
                          (''platforms'', FormText ''youtube,instagram,tiktok'')])] \<and>
            requests t1 = requests t @ [POST (API_BASE @ ''/api/process/complete/'' @ text) None] \<and>
            (\<exists>mid. requests t1 =
               requests s @
                 [POST (API_BASE @ ''/api/upload/multiplatform'')
                    (Some [(''video'', FormFile f), (''prompt'', FormText (prompt s)),
                           (''platforms'', FormText ''youtube,instagram,tiktok'')])] @ mid @
                 [POST (API_BASE @ ''/api/process/complete/'' @ text) None]) \<and>
            (\<exists>more. requests v = requests t1 @ more) \<and>
            projectId t1 = projId \<and>
            requests u1 = requests u \<and>
            intervals u1 = intervals u @ [\<lparr>ivl_proj = projId, ivl_delay = 2000, ivl_active = True\<rparr>] \<and>
            i < length (intervals v) \<and> ivl_proj (intervals v ! i) = projId \<and>
            (ivl_active (intervals v ! i) \<longrightarrow>
               requests (step E (TimerFires i) v) =
                 requests v @ [GET (API_BASE @ ''/api/status/'' @ text @ ''/detailed'')])"
proof -
  let ?k = "length (starts s)"
  let ?s1 = "step E ClickStart s"
  let ?t = "run E evs1 ?s1"
  let ?t1 = "step E (UploadReply ?k (Inr body)) ?t"
  let ?u = "run E evs2 ?t1"
  let ?u1 = "step E (StartReply ?k (Inr accepted)) ?u"
  let ?v = "run E evs3 ?u1"
  let ?i = "length (intervals ?u)"
  have r1: "requests ?s1 =
      requests s @ [POST (API_BASE @ ''/api/upload/multiplatform'') (Some (upload_form f (prompt s)))]"
    and g1: "starts ?s1 = starts s @ [Uploading]"
    using assms(1-3) by (rule click_ok)+
  have k1: "?k < length (starts ?s1)" "starts ?s1 ! ?k = Uploading"
    by (simp_all add: g1)
  have kt: "?k < length (starts ?t) \<and> starts ?t ! ?k = starts ?s1 ! ?k"
    using k1(1) assms(6) by (rule starts_run)
  then have kt': "?k < length (starts ?t)" "starts ?t ! ?k = Uploading" using k1 by simp_all
  have r2: "requests ?t1 = requests ?t @ [POST (process_url text) None]"
    and p2: "projectId ?t1 = projId"
    and g2: "starts ?t1 = (starts ?t)[?k := Starting projId]"
    using kt' assms(4,5) by (rule uploaded_ok)+
  have k2: "?k < length (starts ?t1)" "starts ?t1 ! ?k = Starting projId"
    using kt' by (simp_all add: g2)
  have ku: "?k < length (starts ?u) \<and> starts ?u ! ?k = starts ?t1 ! ?k"
    using k2(1) assms(7) by (rule starts_run)
  then have ku': "?k < length (starts ?u)" "starts ?u ! ?k = Starting projId" using k2 by simp_all
  have r3: "requests ?u1 = requests ?u"
    and i3: "intervals ?u1 = intervals ?u @ [\<lparr>ivl_proj = projId, ivl_delay = 2000, ivl_active = True\<rparr>]"
    using ku' by (simp_all add: started_ok)
  have le: "ivl_le (intervals ?u1) (intervals ?v)" by (rule ivl_le_run)
  have iu: "?i < length (intervals ?u1)" "ivl_proj (intervals ?u1 ! ?i) = projId"
    by (simp_all add: i3)
  from le iu have iv: "?i < length (intervals ?v)" "ivl_proj (intervals ?v ! ?i) = projId"
    by (auto simp: ivl_le_def)
  have tick: "requests (step E (TimerFires ?i) ?v) = requests ?v @ [GET (status_url text)]"
    if "ivl_active (intervals ?v ! ?i)"
    using tick_active [OF iv(1) that, of E "text"] iv(2) assms(5) by (simp add: step_def)
  have r1': "requests ?s1 =
      requests s @
        [POST (API_BASE @ ''/api/upload/multiplatform'')
           (Some [(''video'', FormFile f), (''prompt'', FormText (prompt s)),
                  (''platforms'', FormText ''youtube,instagram,tiktok'')])]"
    using r1 by (simp add: upload_form_def)
  have r2': "requests ?t1 = requests ?t @ [POST (API_BASE @ ''/api/process/complete/'' @ text) None]"
    using r2 by (simp add: process_url_def)
  have tick': "ivl_active (intervals ?v ! ?i) \<longrightarrow>
      requests (step E (TimerFires ?i) ?v) =
        requests ?v @ [GET (API_BASE @ ''/api/status/'' @ text @ ''/detailed'')]"
    using tick by (simp add: status_url_def)
  obtain mid where mid: "requests ?t = requests ?s1 @ mid"
    using requests_run [of E evs1 ?s1] by blast
  have order: "\<exists>mid. requests ?t1 =
      requests s @
        [POST (API_BASE @ ''/api/upload/multiplatform'')
           (Some [(''video'', FormFile f), (''prompt'', FormText (prompt s)),
                  (''platforms'', FormText ''youtube,instagram,tiktok'')])] @ mid @
        [POST (API_BASE @ ''/api/process/complete/'' @ text) None]"
    using r1' r2' mid by simp
  obtain m1 where m1: "requests ?u = requests ?t1 @ m1"
    using requests_run [of E evs2 ?t1] by blast
  obtain m2 where m2: "requests ?v = requests ?u1 @ m2"
    using requests_run [of E evs3 ?u1] by blast
  have later: "\<exists>more. requests ?v = requests ?t1 @ more"
    using m1 m2 r3 by simp
  show ?thesis
    unfolding Let_def using r1' r2' order later p2 r3 i3 iv tick' by blast
qed

theorem upload_flow_project_id_witness:
  "mounted sample_ready \<and> videoFile sample_ready = Some sample_file \<and>
   trim (prompt sample_ready) \<noteq> [] \<and>
   requests (run sample_engine
       [ClickStart, TypePrompt ''shorter'',
        UploadReply 0 (Inr (JObj [(''project_id'', JNum 17)]))] sample_ready) =
     [POST ''http://localhost:8000/api/upload/multiplatform''
        (Some [(''video'', FormFile sample_file), (''prompt'', FormText ''make it exciting''),
               (''platforms'', FormText ''youtube,instagram,tiktok'')]),
      POST ''http://localhost:8000/api/process/complete/17'' None] \<and>
   ivl_active (intervals (run sample_engine
       [ClickStart, TypePrompt ''shorter'',
        UploadReply 0 (Inr (JObj [(''project_id'', JNum 17)])),
        StartReply 0 (Inr JNull), TimerFires 0, StatusReply 0 (Inr (report ''analyzing'' 10))]
       sample_ready) ! 0) \<and>
   requests (step sample_engine (TimerFires 0) (run sample_engine
       [ClickStart, TypePrompt ''shorter'',
        UploadReply 0 (Inr (JObj [(''project_id'', JNum 17)])),
        StartReply 0 (Inr JNull), TimerFires 0, StatusReply 0 (Inr (report ''analyzing'' 10))]
       sample_ready)) =
     requests (run sample_engine
       [ClickStart, TypePrompt ''shorter'',
        UploadReply 0 (Inr (JObj [(''project_id'', JNum 17)])),
        StartReply 0 (Inr JNull), TimerFires 0, StatusReply 0 (Inr (report ''analyzing'' 10))]
       sample_ready) @ [GET ''http://localhost:8000/api/status/17/detailed'']"
proof -
  let ?E = sample_engine
  let ?body = "JObj [(''project_id'', JNum 17)]"
  let ?t = "run ?E [TypePrompt ''shorter''] (step ?E ClickStart sample_ready)"
  let ?t1 = "step ?E (UploadReply 0 (Inr ?body)) ?t"
  let ?u1 = "step ?E (StartReply 0 (Inr JNull)) (run ?E [] ?t1)"
  let ?v = "run ?E [TimerFires 0, StatusReply 0 (Inr (report ''analyzing'' 10))] ?u1"
  have a: "mounted sample_ready" and b: "videoFile sample_ready = Some sample_file"
    and c: "trim (prompt sample_ready) \<noteq> []"
    by (simp_all add: sample_ready_eq App_def trim_def ws1_def ws2_def ws3_def)
  have d: "getprop ?body ''project_id'' = Inr (JNum 17)" by simp
  have e: "ToString ?E (JNum 17) = Inr ''17''" by (simp add: NumberToString_def)
  have k: "length (starts sample_ready) = 0" by (simp add: sample_ready_eq App_def)
  have f1: "list_all (\<lambda>ev. \<not> answers (length (starts sample_ready)) ev) [TypePrompt ''shorter'']"
    by simp
  have f2: "list_all (\<lambda>ev. \<not> answers (length (starts sample_ready)) ev) []" by simp
  have rt: "requests ?t =
     [POST ''http://localhost:8000/api/upload/multiplatform''
        (Some [(''video'', FormFile sample_file), (''prompt'', FormText ''make it exciting''),
               (''platforms'', FormText ''youtube,instagram,tiktok'')])]"
    by (simp add: sample_ready_eq sample_file_def run_defs)
  have i: "length (intervals (run ?E [] ?t1)) = 0"
    by (simp add: sample_ready_eq sample_file_def sample_engine_def run_defs)
  have act: "ivl_active (intervals ?v ! 0)"
    by (simp add: sample_ready_eq sample_file_def sample_engine_def report_def run_defs)
  note th = upload_flow_project_id [OF a b c d e f1 f2, of JNull
      "[TimerFires 0, StatusReply 0 (Inr (report ''analyzing'' 10))]", unfolded Let_def k i]
  have r2: "requests ?t1 = requests ?t @ [POST (API_BASE @ ''/api/process/complete/'' @ ''17'') None]"
    using th by blast
  have r3: "requests (step ?E (TimerFires 0) ?v) =
      requests ?v @ [GET (API_BASE @ ''/api/status/'' @ ''17'' @ ''/detailed'')]"
    using th act by blast
  show ?thesis
    using a b c act r2 r3 rt by (simp add: run_Cons run_Nil API_BASE_def)
qed

subsection \<open>Downloading needs a project identifier\<close>




subsection \<open>The analysis summary and its defaults\<close>

text \<open>
  C10, as the code has it. When the body of a status reply has an \<^verbatim>\<open>ai_analysis\<close> (a
  truthy one, as every object is), and each of its \<^verbatim>\<open>mode\<close>, \<^verbatim>\<open>detected_emotion\<close> and
  \<^verbatim>\<open>operations_count\<close> that is truthy can be printed, the summary is set to six lines in
  which an absent or falsy \<^verbatim>\<open>mode\<close> is printed as \<^verbatim>\<open>custom\<close>, an absent or falsy
  \<^verbatim>\<open>detected_emotion\<close> as \<^verbatim>\<open>balanced\<close> and an absent or falsy \<^verbatim>\<open>operations_count\<close> as
  \<^verbatim>\<open>0\<close>, and a truthy one as it prints. A reply without \<^verbatim>\<open>ai_analysis\<close> leaves the
  summary as it was, and so does one in which a truthy field cannot be printed.
\<close>

theorem analysis_defaults:
  "(truthy (field data ''ai_analysis'') \<and>
    (truthy (field (field data ''ai_analysis'') ''mode'') \<longrightarrow>
       ToString E (field (field data ''ai_analysis'') ''mode'') = Inr m) \<and>
    (truthy (field (field data ''ai_analysis'') ''detected_emotion'') \<longrightarrow>
       ToString E (field (field data ''ai_analysis'') ''detected_emotion'') = Inr d) \<and>
    (truthy (field (field data ''ai_analysis'') ''operations_count'') \<longrightarrow>
       ToString E (field (field data ''ai_analysis'') ''operations_count'') = Inr c) \<longrightarrow>
      aiUnderstanding (pollStatus_resume E i (Inr data) s) =
        [[CHR 0xE2, CHR 0x80, CHR 0xA2] @ '' Mode: '' @
           (if truthy (field (field data ''ai_analysis'') ''mode'') then m else ''custom''),
         [CHR 0xE2, CHR 0x80, CHR 0xA2] @ '' Detected emotion: '' @
           (if truthy (field (field data ''ai_analysis'') ''detected_emotion'') then d else ''balanced''),
         [CHR 0xE2, CHR 0x80, CHR 0xA2] @ '' Operations: '' @
           (if truthy (field (field data ''ai_analysis'') ''operations_count'') then c else ''0''),
         [CHR 0xE2, CHR 0x80, CHR 0xA2] @ '' Platforms: YouTube, Instagram, TikTok'',
         [CHR 0xE2, CHR 0x80, CHR 0xA2] @ '' Audio enhancement: Active'',
         [CHR 0xE2, CHR 0x80, CHR 0xA2] @ '' Subtitle generation: Active'']) \<and>
   (\<not> truthy (field data ''ai_analysis'') \<longrightarrow>
      aiUnderstanding (pollStatus_resume E i (Inr data) s) = aiUnderstanding s) \<and>
   (\<not> printable E (field (field data ''ai_analysis'') ''mode'') \<or>
    \<not> printable E (field (field data ''ai_analysis'') ''detected_emotion'') \<or>
    \<not> printable E (field (field data ''ai_analysis'') ''operations_count'') \<longrightarrow>
      aiUnderstanding (pollStatus_resume E i (Inr data) s) = aiUnderstanding s)"
proof (cases "getprop data ''status''")
  case (Inl e)
  then have "data = JUndefined \<or> data = JNull" by (cases data) simp_all
  then have "field data ''ai_analysis'' = JUndefined" by (auto simp: field_def)
  with Inl show ?thesis by (simp add: pollStatus_resume_def field_def printable_def)
next
  case (Inr st)
  have falsy: "printable E v" if "\<not> truthy v" for v
    using that by (cases v) (simp_all add: printable_def)
  have zero: "ToString E (JNum 0) = Inr ''0''" by (simp add: NumberToString_def)
  show ?thesis
    using Inr falsy zero
    by (auto simp: pollStatus_resume_def set_summary_def analysis_lines_def js_or_def printable_def
        split: sum.splits)
qed

theorem analysis_defaults_witness:
  "truthy (field (JObj [(''status'', JStr ''analyzing''),
       (''ai_analysis'', JObj [(''mode'', JStr []), (''operations_count'', JNum 7)])]) ''ai_analysis'') \<and>
   ToString sample_engine (JNum 7) = Inr ''7'' \<and>
   aiUnderstanding (pollStatus_resume sample_engine 0 (Inr (JObj [(''status'', JStr ''analyzing''),
       (''ai_analysis'', JObj [(''mode'', JStr []), (''operations_count'', JNum 7)])])) sample_job) =
     [[CHR 0xE2, CHR 0x80, CHR 0xA2] @ '' Mode: custom'',
      [CHR 0xE2, CHR 0x80, CHR 0xA2] @ '' Detected emotion: balanced'',
      [CHR 0xE2, CHR 0x80, CHR 0xA2] @ '' Operations: 7'',
      [CHR 0xE2, CHR 0x80, CHR 0xA2] @ '' Platforms: YouTube, Instagram, TikTok'',
      [CHR 0xE2, CHR 0x80, CHR 0xA2] @ '' Audio enhancement: Active'',
      [CHR 0xE2, CHR 0x80, CHR 0xA2] @ '' Subtitle generation: Active''] \<and>
   \<not> truthy (field (report ''processing'' 40) ''ai_analysis'') \<and>
   aiUnderstanding (pollStatus_resume sample_engine 0 (Inr (report ''processing'' 40)) sample_job) =
     aiUnderstanding sample_job \<and>
   \<not> printable sample_engine (field (field (JObj [(''status'', JStr ''analyzing''),
       (''ai_analysis'', JObj [(''mode'', unprintable)])]) ''ai_analysis'') ''mode'') \<and>
   aiUnderstanding (pollStatus_resume sample_engine 0 (Inr (JObj [(''status'', JStr ''analyzing''),
       (''ai_analysis'', JObj [(''mode'', unprintable)])])) sample_job) = aiUnderstanding sample_job"
  using analysis_defaults [where data = "JObj [(''status'', JStr ''analyzing''),
       (''ai_analysis'', JObj [(''mode'', JStr []), (''operations_count'', JNum 7)])]"
       and E = sample_engine and m = "[]" and d = "[]" and c = "''7''" and i = 0 and s = sample_job]
    analysis_defaults [where data = "report ''processing'' 40" and E = sample_engine and i = 0
       and s = sample_job]
    analysis_defaults [where data = "JObj [(''status'', JStr ''analyzing''),
       (''ai_analysis'', JObj [(''mode'', unprintable)])]" and E = sample_engine and i = 0
       and s = sample_job]
  by (simp add: field_def report_def NumberToString_def printable_def unprintable_def)

text \<open>
  C10 as stated fails: an \<^verbatim>\<open>ai_analysis\<close> whose \<^verbatim>\<open>mode\<close> cannot be printed has no
  \<^verbatim>\<open>detected_emotion\<close> and no \<^verbatim>\<open>operations_count\<close>, yet no fallback is rendered for
  them: the template literal of the first line throws and the summary stays as it was.
\<close>

theorem analysis_unprintable_counterexample:
  "truthy (field (JObj [(''status'', JStr ''analyzing''),
       (''ai_analysis'', JObj [(''mode'', unprintable)])]) ''ai_analysis'') \<and>
   aiUnderstanding (step sample_engine (StatusReply 0 (Inr (JObj [(''status'', JStr ''analyzing''),
       (''ai_analysis'', JObj [(''mode'', unprintable)])])))
     (step sample_engine (TimerFires 0) sample_job)) = aiUnderstanding sample_job"
  by (simp add: sample_job_eq sample_engine_def unprintable_def run_defs)

end
